theory Spec2Isabelle
  imports Complex_Main
begin

section \<open>Errors and constructor arguments\<close>

text \<open>
  The exceptions the modelled code can raise. A failed \<^verbatim>\<open>assert\<close> is
  \<open>AssertionError\<close>; reading an attribute that was never assigned is
  \<open>AttributeError\<close>; a shape that cannot be unpacked or broadcast, and a negative
  stop for \<^verbatim>\<open>islice\<close>, are \<open>ValueError\<close>; indexing a missing column is
  \<open>IndexError\<close>; \<open>RuntimeError\<close> is what the tensor library raises.
\<close>

datatype error = AssertionError | AttributeError | ValueError | IndexError | RuntimeError

text \<open>
  A Python argument that the constructor tests with \<^verbatim>\<open>isinstance(v, bool)\<close>:
  either a boolean or some other object.
\<close>

datatype pyval = PyBool bool | PyOther

record init_args =
  arg_normalize_input :: pyval
  arg_normalize_output :: pyval
  arg_num_steps :: int
  arg_burn_in_steps :: int
  arg_keep_every :: int
  arg_num_nets :: int
  arg_batch_size :: int

section \<open>The trainer object\<close>

text \<open>
  The fields \<^verbatim>\<open>BayesianNeuralNetwork.__init__\<close> assigns, and those that
  \<^verbatim>\<open>train\<close> assigns later (\<open>None\<close> while the attribute does not exist).
  \<open>'t\<close> is the type of one parameter tensor; \<open>model\<close> holds the live parameter
  sequence of the network.
\<close>

record 't bnn =
  burn_in_steps :: int
  num_steps :: int
  batch_size :: int
  keep_every :: int
  num_nets :: int
  num_iterations :: int
  normalize_input :: bool
  normalize_output :: bool
  sampled_weights :: "'t list list"
  is_trained :: "bool option"
  model :: "'t list option"
  x_mean :: "real list option"
  x_std :: "real list option"
  y_mean :: "real list option"
  y_std :: "real list option"

text \<open>
  \<^verbatim>\<open>__init__\<close>, lines 202 to 241: the asserts in source order, then the capped
  number of sampling steps and the total number of iterations. The collaborators passed
  in (architecture, loss, optimizer, and \<open>metrics\<close>, an iterable that line 235 copies
  into a list) are not part of the record of arguments.
\<close>

definition init :: "init_args \<Rightarrow> error + 't bnn" where
  "init a =
    (if \<not> (arg_num_steps a > arg_burn_in_steps a) then Inl AssertionError
     else if \<not> (arg_batch_size a > 0) then Inl AssertionError
     else if \<not> (arg_keep_every a > 0) then Inl AssertionError
     else if \<not> (arg_num_nets a > 0) then Inl AssertionError
     else
       (let steps = min (arg_num_steps a - arg_burn_in_steps a)
                        (arg_keep_every a * arg_num_nets a)
        in case arg_normalize_input a of
             PyOther \<Rightarrow> Inl AssertionError
           | PyBool ni \<Rightarrow>
              (case arg_normalize_output a of
                 PyOther \<Rightarrow> Inl AssertionError
               | PyBool no \<Rightarrow>
                   Inr \<lparr> burn_in_steps = arg_burn_in_steps a,
                         num_steps = steps,
                         batch_size = arg_batch_size a,
                         keep_every = arg_keep_every a,
                         num_nets = arg_num_nets a,
                         num_iterations = steps + arg_burn_in_steps a,
                         normalize_input = ni,
                         normalize_output = no,
                         sampled_weights = [],
                         is_trained = None,
                         model = None,
                         x_mean = None, x_std = None,
                         y_mean = None, y_std = None \<rparr>)))"

text \<open>\<^verbatim>\<open>_keep_sample\<close>, lines 253 to 257.\<close>

definition keep_sample :: "('t, 'z) bnn_scheme \<Rightarrow> int \<Rightarrow> bool" where
  "keep_sample s epoch =
    (if epoch < burn_in_steps s then False
     else (let sample_step = epoch - burn_in_steps s
           in sample_step mod keep_every s = 0))"

text \<open>
  The iterations the loop of \<^verbatim>\<open>train\<close> runs are \<open>0, 1, ..., num_iterations - 1\<close>
  (\<^verbatim>\<open>islice(enumerate(train_loader), self.num_iterations)\<close>); the number of them at
  which \<^verbatim>\<open>_keep_sample\<close> is true:
\<close>

definition snapshot_epochs :: "('t, 'z) bnn_scheme \<Rightarrow> int list" where
  "snapshot_epochs s = filter (keep_sample s) [0 .. num_iterations s - 1]"

section \<open>Array arithmetic\<close>

text \<open>
  The values of a floating-point array: a number, the two infinities, or not-a-number.
  The arithmetic is exact on numbers (rounding, overflow and the sign of zero are left
  out); what is kept is where NumPy and torch produce \<open>inf\<close> and \<open>nan\<close> instead of
  raising: division by zero, the mean of nothing, and arithmetic on \<open>inf\<close> and \<open>nan\<close>.
\<close>

datatype fl = Fin real | PInf | NInf | NaN

definition inf_of_sign :: "real \<Rightarrow> fl" where
  "inf_of_sign a = (if a > 0 then PInf else if a < 0 then NInf else NaN)"

fun fl_neg :: "fl \<Rightarrow> fl" where
  "fl_neg (Fin a) = Fin (- a)"
| "fl_neg PInf = NInf"
| "fl_neg NInf = PInf"
| "fl_neg NaN = NaN"

fun fl_add :: "fl \<Rightarrow> fl \<Rightarrow> fl" where
  "fl_add (Fin a) (Fin b) = Fin (a + b)"
| "fl_add NaN _ = NaN"
| "fl_add _ NaN = NaN"
| "fl_add PInf NInf = NaN"
| "fl_add NInf PInf = NaN"
| "fl_add PInf _ = PInf"
| "fl_add _ PInf = PInf"
| "fl_add NInf _ = NInf"
| "fl_add _ NInf = NInf"

definition fl_sub :: "fl \<Rightarrow> fl \<Rightarrow> fl" where
  "fl_sub a b = fl_add a (fl_neg b)"

fun fl_mul :: "fl \<Rightarrow> fl \<Rightarrow> fl" where
  "fl_mul (Fin a) (Fin b) = Fin (a * b)"
| "fl_mul NaN _ = NaN"
| "fl_mul _ NaN = NaN"
| "fl_mul (Fin a) PInf = inf_of_sign a"
| "fl_mul (Fin a) NInf = inf_of_sign (- a)"
| "fl_mul PInf (Fin b) = inf_of_sign b"
| "fl_mul NInf (Fin b) = inf_of_sign (- b)"
| "fl_mul PInf PInf = PInf"
| "fl_mul NInf NInf = PInf"
| "fl_mul PInf NInf = NInf"
| "fl_mul NInf PInf = NInf"

fun fl_div :: "fl \<Rightarrow> fl \<Rightarrow> fl" where
  "fl_div (Fin a) (Fin b) = (if b = 0 then inf_of_sign a else Fin (a / b))"
| "fl_div NaN _ = NaN"
| "fl_div _ NaN = NaN"
| "fl_div (Fin a) _ = Fin 0"
| "fl_div PInf (Fin b) = (if b < 0 then NInf else PInf)"
| "fl_div NInf (Fin b) = (if b < 0 then PInf else NInf)"
| "fl_div _ _ = NaN"

definition fl_sum :: "fl list \<Rightarrow> fl" where
  "fl_sum xs = foldr fl_add xs (Fin 0)"

text \<open>\<^verbatim>\<open>np.true_divide\<close> on two numbers.\<close>

definition true_divide :: "real \<Rightarrow> real \<Rightarrow> fl" where
  "true_divide a b = fl_div (Fin a) (Fin b)"

text \<open>
  A binary operation on two one-dimensional arrays under NumPy's broadcasting rule:
  equal lengths pair element-wise, a length-1 operand is repeated, anything else does
  not broadcast (\<open>None\<close>). A scalar operand behaves as an array of length 1.
\<close>

definition broadcast2 :: "('a \<Rightarrow> 'b \<Rightarrow> 'c) \<Rightarrow> 'a list \<Rightarrow> 'b list \<Rightarrow> 'c list option" where
  "broadcast2 f xs ys =
    (if length xs = length ys then Some (map (\<lambda>(x, y). f x y) (zip xs ys))
     else if length ys = 1 then Some (map (\<lambda>x. f x (hd ys)) xs)
     else if length xs = 1 then Some (map (f (hd xs)) ys)
     else None)"

text \<open>Running a fallible function over the rows of an array, stopping at the first error.\<close>

fun map_rows :: "('a \<Rightarrow> error + 'b) \<Rightarrow> 'a list \<Rightarrow> error + 'b list" where
  "map_rows f [] = Inr []"
| "map_rows f (r # rs) =
    (case f r of
       Inl e \<Rightarrow> Inl e
     | Inr v \<Rightarrow> (case map_rows f rs of Inl e \<Rightarrow> Inl e | Inr vs \<Rightarrow> Inr (v # vs)))"

text \<open>
  A two-dimensional array is the list of its rows. \<open>is_matrix\<close>: at least one row, all
  rows of one length (the one-dimensional empty array is not represented).
\<close>

definition is_matrix :: "'a list list \<Rightarrow> bool" where
  "is_matrix X = (X \<noteq> [] \<and> list_all (\<lambda>row. length row = length (hd X)) X)"

definition column :: "'a list list \<Rightarrow> nat \<Rightarrow> 'a list" where
  "column X j = map (\<lambda>row. row ! j) X"

definition np_mean :: "real list \<Rightarrow> real" where
  "np_mean xs = sum_list xs / real (length xs)"

text \<open>\<^verbatim>\<open>np.mean(X, axis=0)\<close> and \<^verbatim>\<open>np.std(X, axis=0)\<close> of a matrix.\<close>

definition np_mean_axis0 :: "real list list \<Rightarrow> real list" where
  "np_mean_axis0 X = map (\<lambda>j. np_mean (column X j)) [0 ..< length (hd X)]"

definition np_std :: "real list \<Rightarrow> real" where
  "np_std xs = sqrt (np_mean (map (\<lambda>v. (v - np_mean xs) ^ 2) xs))"

definition np_std_axis0 :: "real list list \<Rightarrow> real list" where
  "np_std_axis0 X = map (\<lambda>j. np_std (column X j)) [0 ..< length (hd X)]"

section \<open>Helpers\<close>

text \<open>The default \<^verbatim>\<open>small_constant=1e-16\<close>.\<close>

definition small_constant_default :: real where
  "small_constant_default = 1 / 10 ^ 16"

text \<open>
  \<^verbatim>\<open>safe_division\<close>, lines 140 to 142, for one-dimensional \<open>x\<close> and \<open>y\<close>.
  \<^verbatim>\<open>(np.asarray(y) == 0).all()\<close> is \<open>list_all (\<lambda>v. v = 0) y\<close>; in that branch \<open>x\<close> is
  divided by the scalar \<open>small_constant\<close> and \<open>y\<close> is not read again. \<^verbatim>\<open>np.sign\<close> is
  \<open>sgn\<close>: \<open>sgn 0 = 0\<close>.
\<close>

definition safe_division :: "real list \<Rightarrow> real list \<Rightarrow> real \<Rightarrow> error + fl list" where
  "safe_division x y small_constant =
    (if list_all (\<lambda>v. v = 0) y
     then Inr (map (\<lambda>a. true_divide a small_constant) x)
     else (case broadcast2 true_divide x (map (\<lambda>v. sgn v * small_constant + v) y) of
             None \<Rightarrow> Inl ValueError
           | Some r \<Rightarrow> Inr r))"

text \<open>
  \<^verbatim>\<open>zero_mean_unit_var_normalization\<close>, lines 145 to 153, on a matrix \<open>X\<close> with
  per-column \<open>mean\<close> and \<open>std\<close>: the subtraction and the division broadcast the
  vectors along the rows, so both are applied row by row.
\<close>

definition zero_mean_unit_var_normalization ::
  "real list list \<Rightarrow> real list option \<Rightarrow> real list option \<Rightarrow>
     error + (fl list list \<times> real list \<times> real list)" where
  "zero_mean_unit_var_normalization X mean_arg std_arg =
    (let mean = (case mean_arg of None \<Rightarrow> np_mean_axis0 X | Some m \<Rightarrow> m);
         std = (case std_arg of None \<Rightarrow> np_std_axis0 X | Some s \<Rightarrow> s)
     in case map_rows
               (\<lambda>row. case broadcast2 (\<lambda>a b. a - b) row mean of
                         None \<Rightarrow> Inl ValueError
                       | Some d \<Rightarrow> safe_division d std small_constant_default) X of
          Inl e \<Rightarrow> Inl e
        | Inr X_normalized \<Rightarrow> Inr (X_normalized, mean, std))"

text \<open>
  \<^verbatim>\<open>zero_mean_unit_var_unnormalization\<close>, line 157, on a one-dimensional array (a
  scalar counts as an array of length 1), and row by row on a matrix.
\<close>

definition zero_mean_unit_var_unnormalization ::
  "fl list \<Rightarrow> real list \<Rightarrow> real list \<Rightarrow> error + fl list" where
  "zero_mean_unit_var_unnormalization X_normalized mean std =
    (case broadcast2 (\<lambda>a s. fl_mul a (Fin s)) X_normalized std of
       None \<Rightarrow> Inl ValueError
     | Some scaled \<Rightarrow>
        (case broadcast2 (\<lambda>a m. fl_add a (Fin m)) scaled mean of
           None \<Rightarrow> Inl ValueError
         | Some r \<Rightarrow> Inr r))"

definition zero_mean_unit_var_unnormalization_rows ::
  "fl list list \<Rightarrow> real list \<Rightarrow> real list \<Rightarrow> error + fl list list" where
  "zero_mean_unit_var_unnormalization_rows X_normalized mean std =
    map_rows (\<lambda>row. zero_mean_unit_var_unnormalization row mean std) X_normalized"

section \<open>Priors and loss\<close>

text \<open>
  \<^verbatim>\<open>torch.mean\<close> of a one-dimensional tensor: the sum divided by the number of
  elements, \<open>nan\<close> for the empty tensor.
\<close>

definition torch_mean :: "real list \<Rightarrow> fl" where
  "torch_mean xs = fl_div (Fin (sum_list xs)) (Fin (real (length xs)))"

text \<open>
  \<^verbatim>\<open>log_variance_prior\<close>, lines 165 to 174, for positive \<open>mean\<close> and \<open>variance\<close>
  (the loss calls it with the defaults \<^verbatim>\<open>1e-6\<close> and \<^verbatim>\<open>0.01\<close>). In
  \<^verbatim>\<open>-(a) ** 2\<close> the power binds tighter than the minus.
\<close>

definition log_variance_prior :: "real list list \<Rightarrow> real \<Rightarrow> real \<Rightarrow> fl" where
  "log_variance_prior log_variance mean variance =
    torch_mean
      (map (\<lambda>row. sum_list
              (map (\<lambda>lv. (- ((lv - ln mean) ^ 2)) / (2 * variance) - 0.5 * ln variance) row))
           log_variance)"

text \<open>
  \<^verbatim>\<open>weight_prior\<close>, lines 177 to 186. A parameter tensor is the list of its
  elements, so \<^verbatim>\<open>np.prod(parameter.shape)\<close> is its length.
\<close>

definition weight_prior :: "real list list \<Rightarrow> real \<Rightarrow> real" where
  "weight_prior parameters wdecay =
    (let (log_likelihood, num_parameters) =
           fold (\<lambda>parameter (ll, n).
                   (ll + sum_list (map (\<lambda>w. - wdecay * 0.5 * w ^ 2) parameter),
                    n + length parameter))
                parameters (0, 0 :: nat)
     in log_likelihood / (real num_parameters + 1 / 10 ^ 16))"

record nll =
  parameters :: "real list list"
  num_datapoints :: int

text \<open>
  \<^verbatim>\<open>NegativeLogLikelihood.forward\<close>, lines 23 to 50. \<open>input\<close> and \<open>target\<close> are
  matrices; \<open>target_requires_grad\<close> is the flag \<^verbatim>\<open>_assert_no_grad\<close> tests. The
  columns \<^verbatim>\<open>input[:, 0]\<close> and \<^verbatim>\<open>input[:, 1]\<close> need two entries in every row;
  the \<open>(B, T)\<close> target against the \<open>(B', 1)\<close> columns broadcasts along the batch.
\<close>

definition forward :: "nll \<Rightarrow> real list list \<Rightarrow> bool \<Rightarrow> real list list \<Rightarrow> error + fl" where
  "forward self input target_requires_grad target =
    (if target_requires_grad then Inl AssertionError
     else if \<not> list_all (\<lambda>row. 2 \<le> length row) input then Inl IndexError
     else
      (let batch_size = length target;
           prediction_mean = map (\<lambda>row. row ! 0) input;
           log_prediction_variance = map (\<lambda>row. row ! 1) input;
           prediction_variance_inverse =
             map (\<lambda>lv. 1 / (exp lv + 1 / 10 ^ 16)) log_prediction_variance
       in case broadcast2
                 (\<lambda>trow (m, inv, lv).
                     sum_list (map (\<lambda>t. - ((t - m) ^ 2) * 0.5 * inv - 0.5 * lv) trow))
                 target
                 (zip prediction_mean (zip prediction_variance_inverse log_prediction_variance)) of
            None \<Rightarrow> Inl RuntimeError
          | Some per_example \<Rightarrow>
             (let log_likelihood = fl_div (Fin (sum_list per_example)) (Fin (real batch_size));
                  log_likelihood = fl_add log_likelihood
                    (fl_div (log_variance_prior (map (\<lambda>lv. [lv]) log_prediction_variance)
                               (1 / 10 ^ 6) (1 / 100))
                            (Fin (real_of_int (num_datapoints self))));
                  log_likelihood = fl_add log_likelihood
                    (fl_div (Fin (weight_prior (parameters self) 1))
                            (Fin (real_of_int (num_datapoints self))))
              in Inr (fl_neg log_likelihood))))"

text \<open>
  The loss as the specification words it, for a batch of \<open>B\<close> examples: the negative of
  the batch mean of the per-example sum over the output dimensions of the Gaussian
  log-likelihood, plus the two priors, each divided by the size of the training set.
\<close>

definition spec_log_variance_prior :: "real list \<Rightarrow> real" where
  "spec_log_variance_prior lvs =
    (\<Sum>lv\<leftarrow>lvs. - ((lv - ln (1 / 10 ^ 6)) ^ 2) / (2 * (1 / 100)) - 0.5 * ln (1 / 100))
      / real (length lvs)"

definition spec_weight_prior :: "real list list \<Rightarrow> real" where
  "spec_weight_prior ps =
    (\<Sum>p\<leftarrow>ps. \<Sum>w\<leftarrow>p. - 1 * 0.5 * w ^ 2) / (real (length (concat ps)) + 1 / 10 ^ 16)"

definition spec_loss :: "real list list \<Rightarrow> int \<Rightarrow> real list list \<Rightarrow> real list list \<Rightarrow> real" where
  "spec_loss ps n predictions targets =
    - ((\<Sum>i\<leftarrow>[0 ..< length targets].
          \<Sum>t\<leftarrow>targets ! i.
            - 0.5 * (t - predictions ! i ! 0) ^ 2 * (1 / (exp (predictions ! i ! 1) + 1 / 10 ^ 16))
            - 0.5 * (predictions ! i ! 1))
         / real (length targets)
       + spec_log_variance_prior (map (\<lambda>row. row ! 1) predictions) / real_of_int n
       + spec_weight_prior ps / real_of_int n)"

section \<open>Collaborators\<close>

text \<open>
  What the trainer consumes and does not implement, taken as parameters. \<open>'t\<close> is a
  parameter tensor, \<open>'o\<close> the state of the optimizer.
  \<^item> \<open>network_architecture d\<close>: the parameters of a fresh network for input
    dimensionality \<open>d\<close>;
  \<^item> \<open>optimizer_new ps\<close>: a fresh optimizer bound to the parameters;
  \<^item> \<open>train_step x y bs epoch opt ps\<close>: one iteration of the loop, lines 309 to 318 (the
    batch number \<open>epoch\<close> of size \<open>bs\<close> of the data, forward pass, loss, backward pass,
    optimizer step), giving the updated optimizer state and parameters;
  \<^item> \<open>network_forward ps X\<close>: \<^verbatim>\<open>self.model(X)\<close> without gradients, a matrix;
  \<^item> \<open>copy p v\<close>: \<^verbatim>\<open>p.copy_(v)\<close>, the new value of \<open>p\<close>.
\<close>

record ('t, 'o) env =
  network_architecture :: "nat \<Rightarrow> error + 't list"
  optimizer_new :: "'t list \<Rightarrow> error + 'o"
  train_step ::
    "fl list list \<Rightarrow> fl list list \<Rightarrow> int \<Rightarrow> int \<Rightarrow> 'o \<Rightarrow> 't list \<Rightarrow> error + ('o \<times> 't list)"
  network_forward :: "'t list \<Rightarrow> fl list list \<Rightarrow> error + fl list list"
  copy :: "'t \<Rightarrow> 't \<Rightarrow> error + 't"

section \<open>Restoring a snapshot\<close>

text \<open>
  The setter of \<^verbatim>\<open>network_weights\<close>, lines 247 to 251: \<^verbatim>\<open>zip\<close> stops at the
  shorter sequence. The result is the exception, if one was raised, and the parameters
  as they are then (those already overwritten stay overwritten).
\<close>

fun network_weights_setter ::
  "('t \<Rightarrow> 't \<Rightarrow> error + 't) \<Rightarrow> 't list \<Rightarrow> 't list \<Rightarrow> error option \<times> 't list" where
  "network_weights_setter cp [] weights = (None, [])"
| "network_weights_setter cp (parameter # ps) [] = (None, parameter # ps)"
| "network_weights_setter cp (parameter # ps) (sample # weights) =
    (case cp parameter sample of
       Inl e \<Rightarrow> (Some e, parameter # ps)
     | Inr parameter' \<Rightarrow>
        (case network_weights_setter cp ps weights of
           (r, ps') \<Rightarrow> (r, parameter' # ps')))"

section \<open>Training\<close>

text \<open>\<^verbatim>\<open>sys.maxsize\<close> of a 64-bit CPython, the largest stop \<^verbatim>\<open>islice\<close> accepts.\<close>

definition sys_maxsize :: int where
  "sys_maxsize = 2 ^ 63 - 1"

text \<open>
  The loop of \<^verbatim>\<open>train\<close>, lines 308 to 356, with \<open>n\<close> iterations left and \<open>epoch\<close>
  the index \<^verbatim>\<open>enumerate\<close> gives the next one. The parameters are updated in place,
  so \<open>model\<close> holds them after every step; the snapshot is a copy of their values.
\<close>

fun train_loop ::
  "('t, 'o) env \<Rightarrow> fl list list \<Rightarrow> fl list list \<Rightarrow> nat \<Rightarrow> int \<Rightarrow> 'o \<Rightarrow> 't list \<Rightarrow> 't bnn \<Rightarrow>
     (error + unit) \<times> 't bnn" where
  "train_loop E x y 0 epoch opt ps self = (Inr (), self)"
| "train_loop E x y (Suc n) epoch opt ps self =
    (case train_step E x y (batch_size self) epoch opt ps of
       Inl e \<Rightarrow> (Inl e, self)
     | Inr (opt', ps') \<Rightarrow>
        (let self = self\<lparr>model := Some ps'\<rparr>;
             self = (if keep_sample self epoch
                     then self\<lparr>sampled_weights := sampled_weights self @ [ps']\<rparr>
                     else self)
         in train_loop E x y n (epoch + 1) opt' ps' self))"

text \<open>An array of numbers as the tensor library reads it when it was not normalized.\<close>

definition fin_matrix :: "real list list \<Rightarrow> fl list list" where
  "fin_matrix X = map (map Fin) X"

text \<open>
  \<^verbatim>\<open>train\<close>, lines 262 to 359. \<open>x_train\<close> and \<open>y_train\<close> are lists of rows; a
  list that is no matrix ends in \<open>ValueError\<close> (\<^verbatim>\<open>np.asarray\<close> on ragged rows, the
  unpacking of \<^verbatim>\<open>self.x_train.shape\<close> on the empty list). \<^verbatim>\<open>TensorDataset\<close> asserts
  that both arrays have the same number of rows; \<^verbatim>\<open>islice\<close> rejects a stop outside
  \<open>0 .. sys.maxsize\<close>. The object is returned as the call leaves it, also when it
  raises.
\<close>

definition train ::
  "('t, 'o) env \<Rightarrow> 't bnn \<Rightarrow> real list list \<Rightarrow> real list list \<Rightarrow> (error + unit) \<times> 't bnn" where
  "train E self x_train y_train =
    (let self = self\<lparr>sampled_weights := []\<rparr> in
     if \<not> is_matrix x_train \<or> \<not> is_matrix y_train then (Inl ValueError, self)
     else
      case (if normalize_input self
            then zero_mean_unit_var_normalization x_train None None
            else Inr (fin_matrix x_train, [], [])) of
        Inl e \<Rightarrow> (Inl e, self)
      | Inr (x, xm, xs) \<Rightarrow>
         (let self = (if normalize_input self
                      then self\<lparr>x_mean := Some xm, x_std := Some xs\<rparr> else self) in
          case (if normalize_output self
                then zero_mean_unit_var_normalization y_train None None
                else Inr (fin_matrix y_train, [], [])) of
            Inl e \<Rightarrow> (Inl e, self)
          | Inr (y, ym, ys) \<Rightarrow>
             (let self = (if normalize_output self
                          then self\<lparr>y_mean := Some ym, y_std := Some ys\<rparr> else self);
                  input_dimensionality = length (hd x_train) in
              case network_architecture E input_dimensionality of
                Inl e \<Rightarrow> (Inl e, self)
              | Inr ps \<Rightarrow>
                 (let self = self\<lparr>model := Some ps\<rparr> in
                  case optimizer_new E ps of
                    Inl e \<Rightarrow> (Inl e, self)
                  | Inr opt \<Rightarrow>
                     if length x_train \<noteq> length y_train then (Inl AssertionError, self)
                     else if num_iterations self < 0 \<or> sys_maxsize < num_iterations self
                     then (Inl ValueError, self)
                     else
                      (case train_loop E x y (nat (num_iterations self)) 0 opt ps self of
                         (Inl e, self) \<Rightarrow> (Inl e, self)
                       | (Inr u, self) \<Rightarrow> (Inr (), self\<lparr>is_trained := Some True\<rparr>))))))"

section \<open>Prediction\<close>

text \<open>
  A result of \<^verbatim>\<open>np.mean\<close>: a zero-dimensional value or a one-dimensional array.
\<close>

datatype ndarray = Scalar fl | Vector "fl list"

definition as_vector :: "ndarray \<Rightarrow> fl list" where
  "as_vector a = (case a of Scalar v \<Rightarrow> [v] | Vector vs \<Rightarrow> vs)"

text \<open>
  \<^verbatim>\<open>np.mean(rows, axis=0)\<close> of a list of one-dimensional arrays: for the empty list
  it is the mean of an empty array, \<open>nan\<close> (NumPy warns and raises nothing); rows of
  different lengths make no array.
\<close>

definition np_mean_rows :: "fl list list \<Rightarrow> error + ndarray" where
  "np_mean_rows rows =
    (case rows of
       [] \<Rightarrow> Inr (Scalar NaN)
     | r # rs \<Rightarrow>
        if \<not> list_all (\<lambda>row. length row = length r) rs then Inl ValueError
        else Inr (Vector (map (\<lambda>j. fl_div (fl_sum (column rows j)) (Fin (real (length rows))))
                              [0 ..< length r])))"

text \<open>
  \<^verbatim>\<open>network_predict\<close> for every snapshot in turn, lines 374 to 382: restore the
  snapshot, run the network, keep column 0. The parameters are threaded through, since
  each restore overwrites them.
\<close>

definition column0 :: "fl list list \<Rightarrow> error + fl list" where
  "column0 out = map_rows (\<lambda>row. case row of [] \<Rightarrow> Inl IndexError | v # _ \<Rightarrow> Inr v) out"

fun network_outputs ::
  "('t, 'o) env \<Rightarrow> fl list list \<Rightarrow> 't list list \<Rightarrow> 't list \<Rightarrow> (error + fl list list) \<times> 't list" where
  "network_outputs E test_data [] ps = (Inr [], ps)"
| "network_outputs E test_data (sample # samples) ps =
    (case network_weights_setter (copy E) ps sample of
       (Some e, ps') \<Rightarrow> (Inl e, ps')
     | (None, ps') \<Rightarrow>
        (case network_forward E ps' test_data of
           Inl e \<Rightarrow> (Inl e, ps')
         | Inr out \<Rightarrow>
            (case column0 out of
               Inl e \<Rightarrow> (Inl e, ps')
             | Inr col \<Rightarrow>
                (case network_outputs E test_data samples ps' of
                   (Inl e, ps'') \<Rightarrow> (Inl e, ps'')
                 | (Inr cols, ps'') \<Rightarrow> (Inr (col # cols), ps'')))))"

text \<open>
  The aggregation, lines 384 to 397, from the list of per-snapshot outputs.
  \<^verbatim>\<open>prediction_variance *= self.y_std ** 2\<close> works in place on an array, whose shape
  cannot grow, and makes a new array from a zero-dimensional value.
\<close>

definition deviations :: "fl list list \<Rightarrow> ndarray \<Rightarrow> error + fl list list" where
  "deviations outs prediction_mean =
    map_rows (\<lambda>row. case broadcast2 (\<lambda>a m. fl_mul (fl_sub a m) (fl_sub a m))
                            row (as_vector prediction_mean) of
                       None \<Rightarrow> Inl ValueError | Some d \<Rightarrow> Inr d) outs"

definition imul :: "ndarray \<Rightarrow> real list \<Rightarrow> error + ndarray" where
  "imul a ys =
    (case a of
       Scalar v \<Rightarrow> Inr (Vector (map (\<lambda>y. fl_mul v (Fin y)) ys))
     | Vector vs \<Rightarrow>
        if length ys = length vs then Inr (Vector (map (\<lambda>(v, y). fl_mul v (Fin y)) (zip vs ys)))
        else if length ys = 1 then Inr (Vector (map (\<lambda>v. fl_mul v (Fin (hd ys))) vs))
        else Inl ValueError)"

definition aggregate :: "'t bnn \<Rightarrow> fl list list \<Rightarrow> error + (ndarray \<times> ndarray)" where
  "aggregate self outs =
    (case np_mean_rows outs of
       Inl e \<Rightarrow> Inl e
     | Inr prediction_mean \<Rightarrow>
        (case deviations outs prediction_mean of
           Inl e \<Rightarrow> Inl e
         | Inr devs \<Rightarrow>
            (case np_mean_rows devs of
               Inl e \<Rightarrow> Inl e
             | Inr prediction_variance \<Rightarrow>
                if normalize_output self then
                  (case (y_mean self, y_std self) of
                     (Some ym, Some ys) \<Rightarrow>
                       (case zero_mean_unit_var_unnormalization (as_vector prediction_mean) ym ys of
                          Inl e \<Rightarrow> Inl e
                        | Inr pm \<Rightarrow>
                           (case imul prediction_variance (map (\<lambda>s. s ^ 2) ys) of
                              Inl e \<Rightarrow> Inl e
                            | Inr pv \<Rightarrow> Inr (Vector pm, pv)))
                   | _ \<Rightarrow> Inl AttributeError)
                else Inr (prediction_mean, prediction_variance))))"

text \<open>
  \<^verbatim>\<open>predict\<close>, lines 362 to 397. \<open>x_test\<close> is a matrix. The value returned is the
  pair of line 397; the object comes back with the parameters of the last snapshot
  restored.
\<close>

definition predict ::
  "('t, 'o) env \<Rightarrow> 't bnn \<Rightarrow> real list list \<Rightarrow> pyval \<Rightarrow> (error + (ndarray \<times> ndarray)) \<times> 't bnn" where
  "predict E self x_test return_individual_predictions =
    (case is_trained self of
       None \<Rightarrow> (Inl AttributeError, self)
     | Some False \<Rightarrow> (Inl AssertionError, self)
     | Some True \<Rightarrow>
        (case return_individual_predictions of
           PyOther \<Rightarrow> (Inl AssertionError, self)
         | PyBool _ \<Rightarrow>
            (case (if normalize_input self
                   then (case (x_mean self, x_std self) of
                           (Some xm, Some xs) \<Rightarrow>
                             (case zero_mean_unit_var_normalization x_test (Some xm) (Some xs) of
                                Inl e \<Rightarrow> Inl e
                              | Inr (x, _, _) \<Rightarrow> Inr x)
                         | _ \<Rightarrow> Inl AttributeError)
                   else Inr (fin_matrix x_test)) of
               Inl e \<Rightarrow> (Inl e, self)
             | Inr test_data \<Rightarrow>
                if sampled_weights self = [] then (aggregate self [], self)
                else
                 (case model self of
                    None \<Rightarrow> (Inl AttributeError, self)
                  | Some ps \<Rightarrow>
                     (case network_outputs E test_data (sampled_weights self) ps of
                        (Inl e, ps') \<Rightarrow> (Inl e, self\<lparr>model := Some ps'\<rparr>)
                      | (Inr outs, ps') \<Rightarrow> (aggregate self outs, self\<lparr>model := Some ps'\<rparr>))))))"

section \<open>Objects on which training never completed\<close>

text \<open>
  The objects a program can hold before any \<^verbatim>\<open>train\<close> call has returned: a freshly
  constructed one, and whatever a \<^verbatim>\<open>train\<close> call that raised or a \<^verbatim>\<open>predict\<close> call
  leaves of such an object.
\<close>

inductive never_trained :: "('t, 'o) env \<Rightarrow> 't bnn \<Rightarrow> bool" for E :: "('t, 'o) env" where
  fresh: "init a = Inr s \<Longrightarrow> never_trained E s"
| failed_train: "never_trained E s \<Longrightarrow> train E s x_train y_train = (Inl e, s') \<Longrightarrow> never_trained E s'"
| after_predict: "never_trained E s \<Longrightarrow> predict E s x_test r = (res, s') \<Longrightarrow> never_trained E s'"

section \<open>Example configurations\<close>

text \<open>
  Constructor arguments, a toy network (two parameters, each training step adds 1 to
  both, the output is the first parameter) and a two-row data set, used to run the
  model on concrete inputs.
\<close>

definition args_no_sampling :: init_args where
  "args_no_sampling =
    \<lparr> arg_normalize_input = PyBool True, arg_normalize_output = PyBool True,
      arg_num_steps = 3000, arg_burn_in_steps = 3000, arg_keep_every = 100,
      arg_num_nets = 100, arg_batch_size = 20 \<rparr>"

definition args_small :: init_args where
  "args_small =
    \<lparr> arg_normalize_input = PyBool False, arg_normalize_output = PyBool False,
      arg_num_steps = 4, arg_burn_in_steps = 1, arg_keep_every = 2,
      arg_num_nets = 100, arg_batch_size = 1 \<rparr>"

definition args_short_run :: init_args where
  "args_short_run =
    \<lparr> arg_normalize_input = PyBool False, arg_normalize_output = PyBool False,
      arg_num_steps = 1, arg_burn_in_steps = 0, arg_keep_every = 2,
      arg_num_nets = 1, arg_batch_size = 1 \<rparr>"

definition args_negative_burn_in :: init_args where
  "args_negative_burn_in =
    \<lparr> arg_normalize_input = PyBool False, arg_normalize_output = PyBool False,
      arg_num_steps = 1, arg_burn_in_steps = - 1, arg_keep_every = 3,
      arg_num_nets = 1, arg_batch_size = 1 \<rparr>"

definition toy_env :: "(real, unit) env" where
  "toy_env =
    \<lparr> network_architecture = (\<lambda>d. Inr (replicate 2 0)),
      optimizer_new = (\<lambda>ps. Inr ()),
      train_step = (\<lambda>x y bs epoch opt ps. Inr ((), map (\<lambda>w. w + 1) ps)),
      network_forward = (\<lambda>ps X. Inr (map (\<lambda>row. [Fin (hd ps), Fin 0]) X)),
      copy = (\<lambda>p v. Inr v) \<rparr>"

definition toy_x :: "real list list" where
  "toy_x = [[0], [2]]"

definition args_end_to_end :: init_args where
  "args_end_to_end =
    \<lparr> arg_normalize_input = PyBool True, arg_normalize_output = PyBool True,
      arg_num_steps = 30, arg_burn_in_steps = 10, arg_keep_every = 5,
      arg_num_nets = 100, arg_batch_size = 4 \<rparr>"

text \<open>The toy model after the run of \<open>args_small\<close>: two snapshots.\<close>

definition toy_trained :: "real bnn" where
  "toy_trained = snd (train toy_env (projr (init args_small)) toy_x toy_x)"

text \<open>
  The toy model after the run of \<open>args_negative_burn_in\<close> (no snapshot) and after the
  run of \<open>args_short_run\<close> (one snapshot).
\<close>

definition toy_empty :: "real bnn" where
  "toy_empty = snd (train toy_env (projr (init args_negative_burn_in)) toy_x toy_x)"

definition toy_single :: "real bnn" where
  "toy_single = snd (train toy_env (projr (init args_short_run)) toy_x toy_x)"

text \<open>A \<^verbatim>\<open>copy_\<close> on flat tensors that raises on a size mismatch.\<close>

definition toy_copy :: "real list \<Rightarrow> real list \<Rightarrow> error + real list" where
  "toy_copy p w = (if length w = length p then Inr w else Inl RuntimeError)"

text \<open>A loss object for a training set of 20 rows and a network with one parameter tensor.\<close>

definition toy_nll :: nll where
  "toy_nll = \<lparr> parameters = [[1, 2]], num_datapoints = 20 \<rparr>"

section \<open>The sampling schedule\<close>

subsection \<open>Counting the multiples of the thinning interval\<close>

lemma ceil_step:
  fixes m k :: int
  assumes "0 < k" "0 \<le> m"
  shows "(m + k) div k = (m + k - 1) div k + (if m mod k = 0 then 1 else 0)"
proof -
  define q where "q = m div k"
  define r where "r = m mod k"
  have m: "m = q * k + r" by (simp add: q_def r_def)
  have r: "0 \<le> r" "r < k" using assms by (simp_all add: r_def)
  have lhs: "(m + k) div k = q + 1" using assms by (simp add: q_def)
  show ?thesis
  proof (cases "r = 0")
    case True
    have e: "m + k - 1 = (k - 1) + q * k" using m True by simp
    have "(m + k - 1) div k = ((k - 1) + q * k) div k" by (simp only: e)
    also have "\<dots> = (k - 1) div k + q" using assms by simp
    also have "(k - 1) div k = 0" using assms by (simp add: div_pos_pos_trivial)
    finally show ?thesis using lhs True by (simp add: r_def)
  next
    case False
    have e: "m + k - 1 = (r - 1) + (q + 1) * k" using m by (simp add: algebra_simps)
    have "(m + k - 1) div k = ((r - 1) + (q + 1) * k) div k" by (simp only: e)
    also have "\<dots> = (r - 1) div k + (q + 1)" using assms by simp
    also have "(r - 1) div k = 0" using r False by (simp add: div_pos_pos_trivial)
    finally show ?thesis using lhs False by (simp add: r_def)
  qed
qed

lemma ceil_mult:
  fixes k n :: int
  assumes "0 < k"
  shows "(k * n + k - 1) div k = n"
proof -
  have "k * n + k - 1 = (k - 1) + n * k" by (simp add: algebra_simps)
  then have "(k * n + k - 1) div k = ((k - 1) + n * k) div k" by (simp only:)
  also have "\<dots> = (k - 1) div k + n" using assms by simp
  also have "(k - 1) div k = 0" using assms by (simp add: div_pos_pos_trivial)
  finally show ?thesis by simp
qed

lemma ceil_min:
  fixes k n R :: int
  assumes "0 < k"
  shows "(min R (k * n) + k - 1) div k = min ((R + k - 1) div k) n"
proof (cases "R \<le> k * n")
  case True
  then have "(R + k - 1) div k \<le> (k * n + k - 1) div k"
    using assms by (intro zdiv_mono1) simp_all
  with True show ?thesis using ceil_mult [OF assms, of n] by (simp add: min_def)
next
  case False
  then have "(k * n + k - 1) div k \<le> (R + k - 1) div k"
    using assms by (intro zdiv_mono1) simp_all
  with False show ?thesis using ceil_mult [OF assms, of n] by (simp add: min_def)
qed

lemma floor_count:
  fixes k n R :: int
  assumes "0 < k" "k dvd R \<or> k * n \<le> R"
  shows "min ((R + k - 1) div k) n = min (R div k) n"
  using assms(2)
proof
  assume "k dvd R"
  then obtain q where q: "R = k * q" ..
  then show ?thesis using ceil_mult [OF assms(1), of q] assms(1) by simp
next
  assume le: "k * n \<le> R"
  then have "(k * n + k - 1) div k \<le> (R + k - 1) div k"
    using assms(1) by (intro zdiv_mono1) simp_all
  moreover have "(k * n) div k \<le> R div k"
    using assms(1) le by (intro zdiv_mono1) simp_all
  ultimately show ?thesis using ceil_mult [OF assms(1), of n] assms(1) by (simp add: min_def)
qed

lemma count_upto:
  fixes b k :: int
  assumes "0 < k" "0 \<le> b"
  shows "int (length (filter (\<lambda>i. \<not> i < b \<and> (i - b) mod k = 0) [0 .. b + int m - 1])) = (int m + k - 1) div k"
proof (induction m)
  case 0
  have "filter (\<lambda>i. \<not> i < b \<and> (i - b) mod k = 0) [0 .. b - 1] = []"
    by (simp add: filter_empty_conv)
  then show ?case using assms by (simp add: div_pos_pos_trivial)
next
  case (Suc m)
  have "[0 .. b + int (Suc m) - 1] = [0 .. b + int m - 1] @ [b + int m]"
    using assms upto_rec2 [of 0 "b + int m"] by simp
  then have "int (length (filter (\<lambda>i. \<not> i < b \<and> (i - b) mod k = 0) [0 .. b + int (Suc m) - 1]))
     = (int m + k - 1) div k + (if int m mod k = 0 then 1 else 0)"
    using Suc by simp
  also have "\<dots> = (int m + k) div k" using ceil_step [of k "int m"] assms by simp
  finally show ?case by (simp add: algebra_simps)
qed

subsection \<open>What the training loop changes\<close>

lemma keep_sample_cong:
  "burn_in_steps s' = burn_in_steps s \<Longrightarrow> keep_every s' = keep_every s \<Longrightarrow>
     keep_sample s' = keep_sample s"
  by (rule ext) (simp add: keep_sample_def)

lemma keep_sample_before_burn_in: "i < burn_in_steps s \<Longrightarrow> \<not> keep_sample s i"
  by (simp add: keep_sample_def)

lemma train_loop_frame:
  "train_loop E x y n epoch opt ps self = (r, self') \<Longrightarrow>
     is_trained self' = is_trained self \<and> burn_in_steps self' = burn_in_steps self \<and>
     keep_every self' = keep_every self \<and> num_iterations self' = num_iterations self \<and>
     num_nets self' = num_nets self \<and> normalize_input self' = normalize_input self \<and>
     normalize_output self' = normalize_output self \<and>
     x_mean self' = x_mean self \<and> x_std self' = x_std self \<and>
     y_mean self' = y_mean self \<and> y_std self' = y_std self"
proof (induction n arbitrary: epoch opt ps self)
  case 0
  then show ?case by simp
next
  case (Suc n)
  show ?case
  proof (cases "train_step E x y (batch_size self) epoch opt ps")
    case (Inl e)
    with Suc.prems show ?thesis by simp
  next
    case (Inr p)
    obtain opt' ps' where p: "p = (opt', ps')" by (cases p)
    from Suc.prems Inr p Suc.IH show ?thesis
      by (auto simp: Let_def split: if_splits)
  qed
qed

lemma train_loop_count:
  "train_loop E x y n epoch opt ps self = (Inr u, self') \<Longrightarrow>
     length (sampled_weights self') =
       length (sampled_weights self) + length (filter (keep_sample self) [epoch .. epoch + int n - 1])"
proof (induction n arbitrary: epoch opt ps self)
  case 0
  then show ?case by simp
next
  case (Suc n)
  show ?case
  proof (cases "train_step E x y (batch_size self) epoch opt ps")
    case (Inl e)
    with Suc.prems show ?thesis by simp
  next
    case (Inr p)
    obtain opt' ps' where p: "p = (opt', ps')" by (cases p)
    define s1 where "s1 = self\<lparr>model := Some ps'\<rparr>"
    define s2 where "s2 = (if keep_sample s1 epoch
                     then s1\<lparr>sampled_weights := sampled_weights s1 @ [ps']\<rparr> else s1)"
    have run: "train_loop E x y n (epoch + 1) opt' ps' s2 = (Inr u, self')"
      using Suc.prems Inr p by (auto simp: s1_def s2_def Let_def split: if_splits)
    have k: "keep_sample s2 = keep_sample self" "keep_sample s1 = keep_sample self"
      by (rule keep_sample_cong; simp add: s1_def s2_def)+
    have up: "[epoch .. epoch + int (Suc n) - 1] = epoch # [epoch + 1 .. epoch + 1 + int n - 1]"
      using upto_rec1 [of epoch "epoch + int n"] by (simp add: algebra_simps)
    have "length (sampled_weights s2) =
            length (sampled_weights self) + (if keep_sample self epoch then 1 else 0)"
      by (simp add: s2_def s1_def k [unfolded s1_def])
    with Suc.IH [OF run] show ?thesis
      by (simp only: up k) simp
  qed
qed

lemma train_failure:
  assumes "train E self x_train y_train = (Inl e, self')"
  shows "is_trained self' = is_trained self"
  using assms
  by (auto simp: train_def Let_def split: if_splits sum.splits prod.splits
           dest!: train_loop_frame)

lemma train_success:
  assumes "train E self x_train y_train = (Inr u, self')"
  shows "is_trained self' = Some True"
    and "0 \<le> num_iterations self"
    and "length (sampled_weights self') = length (snapshot_epochs self)"
  using assms
  by (auto simp: train_def Let_def snapshot_epochs_def split: if_splits sum.splits prod.splits
           dest!: train_loop_count cong: keep_sample_cong)

subsection \<open>The constructor\<close>

lemma init_Inr:
  assumes "init a = Inr (s :: 't bnn)"
  shows "arg_burn_in_steps a < arg_num_steps a" "0 < arg_batch_size a" "0 < arg_keep_every a"
    "0 < arg_num_nets a"
    "burn_in_steps s = arg_burn_in_steps a" "keep_every s = arg_keep_every a"
    "num_nets s = arg_num_nets a" "batch_size s = arg_batch_size a"
    "num_steps s = min (arg_num_steps a - arg_burn_in_steps a) (arg_keep_every a * arg_num_nets a)"
    "num_iterations s = num_steps s + burn_in_steps s"
    "sampled_weights s = []" "is_trained s = None"
  using assms
  by (auto simp: init_def Let_def split: if_splits pyval.splits)

lemma init_num_steps_pos:
  assumes "init a = Inr (s :: 't bnn)"
  shows "1 \<le> num_steps s"
proof -
  note i = init_Inr [OF assms]
  have "1 * 1 \<le> arg_keep_every a * arg_num_nets a"
    using i(3,4) by (intro mult_mono) simp_all
  then show ?thesis using i(1) by (simp add: i(9))
qed

lemma init_small: "init args_small = Inr (projr (init args_small) :: real bnn)"
  by (simp add: init_def args_small_def)

lemma init_end_to_end: "init args_end_to_end = Inr (projr (init args_end_to_end) :: real bnn)"
  by (simp add: init_def args_end_to_end_def)

lemma toy_train_small:
  "train toy_env (projr (init args_small)) toy_x toy_x =
     (Inr (), (projr (init args_small))\<lparr>sampled_weights := [[2, 2], [4, 4]],
          model := Some [4, 4], is_trained := Some True\<rparr>)"
  by (simp add: init_def args_small_def train_def toy_env_def toy_x_def is_matrix_def
        fin_matrix_def sys_maxsize_def keep_sample_def eval_nat_numeral)

text \<open>
  Claim C7. For well-typed arguments (\<open>normalize_input\<close> and \<open>normalize_output\<close>
  booleans, as lines 224 and 227 assert) the constructor fails exactly when the
  requested number of iterations does not exceed the burn-in length, or the batch size,
  \<open>keep_every\<close> or the target ensemble size is not positive. The failure is the
  constructor's own result, so no training has started; an object the constructor
  returns has positive \<open>batch_size\<close>, \<open>keep_every\<close> and \<open>num_nets\<close>, more
  iterations than burn-in steps, an empty ensemble and no \<open>is_trained\<close> attribute.
\<close>

theorem init_fails_iff:
  assumes "arg_normalize_input a = PyBool ni" and "arg_normalize_output a = PyBool no"
  shows "((\<exists>e. (init a :: error + 't bnn) = Inl e) \<longleftrightarrow>
      (arg_num_steps a \<le> arg_burn_in_steps a \<or> arg_batch_size a \<le> 0 \<or>
       arg_keep_every a \<le> 0 \<or> arg_num_nets a \<le> 0)) \<and>
   (init a = Inr (s :: 't bnn) \<longrightarrow>
      arg_burn_in_steps a < arg_num_steps a \<and> 0 < batch_size s \<and> 0 < keep_every s \<and>
      0 < num_nets s \<and> burn_in_steps s < num_iterations s \<and>
      sampled_weights s = [] \<and> is_trained s = None)"
proof -
  have "(\<exists>e. (init a :: error + 't bnn) = Inl e) \<longleftrightarrow>
      (arg_num_steps a \<le> arg_burn_in_steps a \<or> arg_batch_size a \<le> 0 \<or>
       arg_keep_every a \<le> 0 \<or> arg_num_nets a \<le> 0)"
    using assms by (auto simp: init_def Let_def)
  moreover have "arg_burn_in_steps a < arg_num_steps a \<and> 0 < batch_size s \<and> 0 < keep_every s \<and>
      0 < num_nets s \<and> burn_in_steps s < num_iterations s \<and>
      sampled_weights s = [] \<and> is_trained s = None" if "init a = Inr s"
    using init_Inr [OF that] init_num_steps_pos [OF that] by simp
  ultimately show ?thesis by blast
qed

theorem init_fails_iff_witness:
  "arg_normalize_input args_end_to_end = PyBool True \<and>
   arg_normalize_output args_end_to_end = PyBool True \<and>
   init args_end_to_end = Inr (projr (init args_end_to_end) :: real bnn) \<and>
   keep_every (projr (init args_end_to_end) :: real bnn) = 5 \<and>
   burn_in_steps (projr (init args_end_to_end) :: real bnn)
     < num_iterations (projr (init args_end_to_end) :: real bnn) \<and>
   \<not> (\<exists>e. (init args_end_to_end :: error + real bnn) = Inl e) \<and>
   arg_normalize_input args_no_sampling = PyBool True \<and>
   arg_normalize_output args_no_sampling = PyBool True \<and>
   arg_num_steps args_no_sampling \<le> arg_burn_in_steps args_no_sampling \<and>
   (\<exists>e. (init args_no_sampling :: error + real bnn) = Inl e)"
proof -
  have f: "arg_normalize_input args_end_to_end = PyBool True"
    "arg_normalize_output args_end_to_end = PyBool True"
    "arg_normalize_input args_no_sampling = PyBool True"
    "arg_normalize_output args_no_sampling = PyBool True"
    "arg_num_steps args_no_sampling \<le> arg_burn_in_steps args_no_sampling"
    by (simp_all add: args_end_to_end_def args_no_sampling_def)
  have k: "keep_every (projr (init args_end_to_end) :: real bnn) = 5"
    by (simp add: init_def args_end_to_end_def)
  have nb: "\<not> (arg_num_steps args_end_to_end \<le> arg_burn_in_steps args_end_to_end \<or>
      arg_batch_size args_end_to_end \<le> 0 \<or> arg_keep_every args_end_to_end \<le> 0 \<or>
      arg_num_nets args_end_to_end \<le> 0)"
    by (simp add: args_end_to_end_def)
  from init_fails_iff [OF f(1,2), of "projr (init args_end_to_end) :: real bnn"]
    init_end_to_end nb
  have 1: "burn_in_steps (projr (init args_end_to_end) :: real bnn)
     < num_iterations (projr (init args_end_to_end) :: real bnn)"
    "\<not> (\<exists>e. (init args_end_to_end :: error + real bnn) = Inl e)"
    by blast+
  from init_fails_iff [OF f(3,4), of "projr (init args_no_sampling) :: real bnn"] f(5)
  have 2: "\<exists>e. (init args_no_sampling :: error + real bnn) = Inl e"
    by blast
  from f k 1 2 init_end_to_end show ?thesis by blast
qed

subsection \<open>The number of snapshots\<close>

lemma snapshot_epochs_count:
  assumes "init a = Inr (s :: 't bnn)" and "0 \<le> arg_burn_in_steps a"
  shows "int (length (snapshot_epochs s)) =
           min ((arg_num_steps a - arg_burn_in_steps a + arg_keep_every a - 1) div arg_keep_every a)
               (arg_num_nets a)"
proof -
  note i = init_Inr [OF assms(1)]
  define b where "b = arg_burn_in_steps a"
  define k where "k = arg_keep_every a"
  define m where "m = nat (num_steps s)"
  note steps = init_num_steps_pos [OF assms(1)]
  have ks: "keep_sample s = (\<lambda>i. \<not> i < b \<and> (i - b) mod k = 0)"
    by (rule ext) (simp add: keep_sample_def i b_def k_def)
  have "num_iterations s - 1 = b + int m - 1"
    using steps by (simp add: i(10) i(5) b_def m_def)
  then have "int (length (snapshot_epochs s)) = (int m + k - 1) div k"
    using count_upto [of k b m] i(3) assms(2) by (simp add: snapshot_epochs_def ks b_def k_def)
  also have "int m = min (arg_num_steps a - b) (k * arg_num_nets a)"
    using steps by (simp add: m_def i(9) b_def k_def)
  finally show ?thesis using ceil_min [of k] i(3) by (simp add: b_def k_def)
qed

text \<open>
  Claim C2, as amended. For a configuration the constructor accepts, with
  \<open>burn_in_steps \<ge> 0\<close>, writing \<open>R\<close> for the requested post-burn-in steps
  (\<open>num_steps - burn_in_steps\<close> of the arguments): \<^verbatim>\<open>_keep_sample\<close> is false at every
  iteration before \<open>burn_in_steps\<close>; the run has \<open>burn_in_steps + min R (keep_every *
  num_nets)\<close> iterations; \<^verbatim>\<open>_keep_sample\<close> is true at exactly \<open>min \<lceil>R / keep_every\<rceil>
  num_nets\<close> of them (the quotient rounded up, not down), which is at most \<open>num_nets\<close>;
  a \<^verbatim>\<open>train\<close> call that returns leaves exactly that many snapshots; and the
  rounded-down quotient of the claim gives the same number when \<open>keep_every\<close> divides
  \<open>R\<close> or \<open>R \<ge> keep_every * num_nets\<close>.
\<close>

theorem snapshot_count:
  assumes "init a = Inr (s :: 't bnn)" and "0 \<le> arg_burn_in_steps a"
  shows "(\<forall>i. i < burn_in_steps s \<longrightarrow> \<not> keep_sample s i) \<and>
    num_iterations s = arg_burn_in_steps a +
      min (arg_num_steps a - arg_burn_in_steps a) (arg_keep_every a * arg_num_nets a) \<and>
    int (length (snapshot_epochs s)) =
      min ((arg_num_steps a - arg_burn_in_steps a + arg_keep_every a - 1) div arg_keep_every a)
          (arg_num_nets a) \<and>
    int (length (snapshot_epochs s)) \<le> arg_num_nets a \<and>
    (train E s x y = (Inr u, s') \<longrightarrow>
       length (sampled_weights s') = length (snapshot_epochs s)) \<and>
    (arg_keep_every a dvd arg_num_steps a - arg_burn_in_steps a \<or>
     arg_keep_every a * arg_num_nets a \<le> arg_num_steps a - arg_burn_in_steps a \<longrightarrow>
       int (length (snapshot_epochs s)) =
         min ((arg_num_steps a - arg_burn_in_steps a) div arg_keep_every a) (arg_num_nets a))"
proof -
  note i = init_Inr [OF assms(1)]
  note c = snapshot_epochs_count [OF assms]
  have 1: "\<forall>i. i < burn_in_steps s \<longrightarrow> \<not> keep_sample s i"
    by (simp add: keep_sample_before_burn_in)
  have 2: "num_iterations s = arg_burn_in_steps a +
      min (arg_num_steps a - arg_burn_in_steps a) (arg_keep_every a * arg_num_nets a)"
    by (simp add: i(10) i(9) i(5))
  have 4: "int (length (snapshot_epochs s)) \<le> arg_num_nets a"
    by (simp add: c)
  have 5: "train E s x y = (Inr u, s') \<longrightarrow>
       length (sampled_weights s') = length (snapshot_epochs s)"
    by (simp add: train_success(3))
  have 6: "arg_keep_every a dvd arg_num_steps a - arg_burn_in_steps a \<or>
     arg_keep_every a * arg_num_nets a \<le> arg_num_steps a - arg_burn_in_steps a \<longrightarrow>
       int (length (snapshot_epochs s)) =
         min ((arg_num_steps a - arg_burn_in_steps a) div arg_keep_every a) (arg_num_nets a)"
    using floor_count [OF i(3), of "arg_num_steps a - arg_burn_in_steps a" "arg_num_nets a"]
    by (simp only: c) blast
  from 1 2 c 4 5 6 show ?thesis by (intro conjI)
qed

theorem snapshot_count_witness:
  "init args_small = Inr (projr (init args_small) :: real bnn) \<and>
   0 \<le> arg_burn_in_steps args_small \<and>
   fst (train toy_env (projr (init args_small)) toy_x toy_x) = Inr () \<and>
   num_iterations (projr (init args_small) :: real bnn) = 4 \<and>
   length (snapshot_epochs (projr (init args_small) :: real bnn)) = 2 \<and>
   length (sampled_weights (snd (train toy_env (projr (init args_small)) toy_x toy_x))) = 2 \<and>
   init args_end_to_end = Inr (projr (init args_end_to_end) :: real bnn) \<and>
   arg_keep_every args_end_to_end dvd
     arg_num_steps args_end_to_end - arg_burn_in_steps args_end_to_end \<and>
   length (snapshot_epochs (projr (init args_end_to_end) :: real bnn)) = 4"
proof -
  have b: "0 \<le> arg_burn_in_steps args_small" "0 \<le> arg_burn_in_steps args_end_to_end"
    by (simp_all add: args_small_def args_end_to_end_def)
  have d: "arg_keep_every args_end_to_end dvd
     arg_num_steps args_end_to_end - arg_burn_in_steps args_end_to_end"
    by (simp add: args_end_to_end_def)
  have t: "train toy_env (projr (init args_small)) toy_x toy_x =
     (Inr (), snd (train toy_env (projr (init args_small)) toy_x toy_x))"
    by (simp add: toy_train_small)
  from snapshot_count [OF init_small b(1), of toy_env toy_x toy_x "()"
      "snd (train toy_env (projr (init args_small)) toy_x toy_x)"] t
  have s: "num_iterations (projr (init args_small) :: real bnn) = 4"
     "int (length (snapshot_epochs (projr (init args_small) :: real bnn))) = 2"
     "length (sampled_weights (snd (train toy_env (projr (init args_small)) toy_x toy_x))) =
        length (snapshot_epochs (projr (init args_small) :: real bnn))"
    by (simp_all add: args_small_def)
  from snapshot_count [OF init_end_to_end b(2), of toy_env toy_x toy_x "()"
      "projr (init args_end_to_end)"] d
  have e: "int (length (snapshot_epochs (projr (init args_end_to_end) :: real bnn))) = 4"
    by (simp add: args_end_to_end_def)
  have f: "fst (train toy_env (projr (init args_small)) toy_x toy_x) = Inr ()"
    by (simp add: toy_train_small)
  from s e f b d init_small init_end_to_end show ?thesis by simp
qed

text \<open>
  With one post-burn-in step and \<open>keep_every = 2\<close> the iteration \<open>burn_in_steps\<close>
  itself is a snapshot, so there is one, where \<open>min (1 div 2) 1 = 0\<close>.
\<close>

theorem snapshot_count_counterexample:
  "init args_short_run = Inr (projr (init args_short_run) :: real bnn) \<and>
   length (snapshot_epochs (projr (init args_short_run) :: real bnn)) = 1 \<and>
   fst (train toy_env (projr (init args_short_run)) toy_x toy_x) = Inr () \<and>
   length (sampled_weights (snd (train toy_env (projr (init args_short_run)) toy_x toy_x))) = 1 \<and>
   min ((arg_num_steps args_short_run - arg_burn_in_steps args_short_run)
          div arg_keep_every args_short_run) (arg_num_nets args_short_run) = 0"
  by (simp add: init_def args_short_run_def train_def toy_env_def toy_x_def is_matrix_def
        fin_matrix_def sys_maxsize_def keep_sample_def snapshot_epochs_def upto.simps)

section \<open>Prediction before training\<close>

lemma predict_untrained:
  "is_trained s = None \<Longrightarrow> predict E s x_test r = (Inl AttributeError, s)"
  by (simp add: predict_def)

lemma never_trained_is_trained:
  "never_trained E s \<Longrightarrow> is_trained s = None"
proof (induction rule: never_trained.induct)
  case (fresh a s)
  then show ?case by (simp add: init_Inr(12))
next
  case (failed_train s x_train y_train e s')
  then show ?case by (simp add: train_failure)
next
  case (after_predict s x_test r res s')
  then show ?case by (simp add: predict_untrained)
qed

text \<open>
  Claim C8. On every object on which \<^verbatim>\<open>train\<close> has never completed, any call to
  \<^verbatim>\<open>predict\<close> fails and changes nothing: \<^verbatim>\<open>is_trained\<close> is assigned nowhere but in
  the last line of \<^verbatim>\<open>train\<close>, so the attribute does not exist and \<^verbatim>\<open>assert
  self.is_trained\<close> raises \<open>AttributeError\<close>. A \<^verbatim>\<open>train\<close> call that raises leaves
  \<open>is_trained\<close> as it was; one that returns, and so has run the whole loop, sets it.
\<close>

theorem predict_before_train_fails:
  "(never_trained E s \<longrightarrow>
      is_trained s = None \<and> predict E s x_test r = (Inl AttributeError, s)) \<and>
   (train E s0 x0 y0 = (Inl e, s0') \<longrightarrow> is_trained s0' = is_trained s0) \<and>
   (train E s1 x1 y1 = (Inr u, s1') \<longrightarrow> is_trained s1' = Some True)"
  using never_trained_is_trained [of E s] predict_untrained [of s E x_test r]
    train_failure [of E s0 x0 y0 e s0'] train_success(1) [of E s1 x1 y1 u s1']
  by blast

lemma toy_train_empty:
  "train toy_env (projr (init args_small)) [] [] =
     (Inl ValueError, projr (init args_small))"
  by (simp add: init_def args_small_def train_def is_matrix_def)

theorem predict_before_train_fails_witness:
  "never_trained toy_env (projr (init args_small)) \<and>
   predict toy_env (projr (init args_small)) toy_x (PyBool False) =
     (Inl AttributeError, projr (init args_small)) \<and>
   train toy_env (projr (init args_small)) [] [] = (Inl ValueError, projr (init args_small)) \<and>
   is_trained (projr (init args_small) :: real bnn) = None \<and>
   train toy_env (projr (init args_small)) toy_x toy_x =
     (Inr (), snd (train toy_env (projr (init args_small)) toy_x toy_x)) \<and>
   is_trained (snd (train toy_env (projr (init args_small)) toy_x toy_x)) = Some True"
proof -
  have n: "never_trained toy_env (projr (init args_small))"
    by (rule never_trained.fresh [OF init_small])
  have t: "train toy_env (projr (init args_small)) toy_x toy_x =
     (Inr (), snd (train toy_env (projr (init args_small)) toy_x toy_x))"
    by (simp add: toy_train_small)
  from predict_before_train_fails [of toy_env "projr (init args_small)" toy_x "PyBool False"
      "projr (init args_small)" "[]" "[]" ValueError "projr (init args_small)"
      "projr (init args_small)" toy_x toy_x "()"
      "snd (train toy_env (projr (init args_small)) toy_x toy_x)"] n t toy_train_empty
  show ?thesis by blast
qed

section \<open>A completed run and its ensemble\<close>

lemma first_snapshot:
  assumes "0 \<le> burn_in_steps s" "burn_in_steps s < num_iterations s"
  shows "hd (snapshot_epochs s) = burn_in_steps s" "snapshot_epochs s \<noteq> []"
proof -
  define b where "b = burn_in_steps s"
  have "[0 .. num_iterations s - 1] = [0 .. b - 1] @ b # [b + 1 .. num_iterations s - 1]"
    using assms by (intro upto_split3) (simp_all add: b_def)
  moreover have "filter (keep_sample s) [0 .. b - 1] = []"
    by (simp add: filter_empty_conv keep_sample_def b_def)
  moreover have "keep_sample s b"
    by (simp add: keep_sample_def b_def)
  ultimately have "snapshot_epochs s = b # filter (keep_sample s) [b + 1 .. num_iterations s - 1]"
    by (simp add: snapshot_epochs_def)
  then show "hd (snapshot_epochs s) = burn_in_steps s" "snapshot_epochs s \<noteq> []"
    by (simp_all add: b_def)
qed

text \<open>
  Claim C9, as amended. For every configuration the constructor accepts with
  \<open>burn_in_steps \<ge> 0\<close>, a \<^verbatim>\<open>train\<close> call that returns has collected at least one
  snapshot: the capped number of post-burn-in steps is at least 1, so the iteration
  \<open>burn_in_steps\<close> is run; \<^verbatim>\<open>_keep_sample\<close> is true there, and it is the first
  iteration at which it is true, however large \<open>keep_every\<close> is.
\<close>

theorem train_collects_snapshot:
  assumes "init a = Inr (s :: 't bnn)" and "0 \<le> arg_burn_in_steps a"
    and "train E s x_train y_train = (Inr u, s')"
  shows "sampled_weights s' \<noteq> [] \<and> 1 \<le> num_steps s \<and>
    0 \<le> burn_in_steps s \<and> burn_in_steps s < num_iterations s \<and>
    keep_sample s (burn_in_steps s) \<and> hd (snapshot_epochs s) = burn_in_steps s"
proof -
  note i = init_Inr [OF assms(1)]
  note steps = init_num_steps_pos [OF assms(1)]
  have b: "0 \<le> burn_in_steps s" "burn_in_steps s < num_iterations s"
    using assms(2) steps by (simp_all add: i(5) i(10))
  note f = first_snapshot [OF b]
  have "length (sampled_weights s') = length (snapshot_epochs s)"
    by (rule train_success(3) [OF assms(3)])
  with f(2) have "sampled_weights s' \<noteq> []" by auto
  moreover have "keep_sample s (burn_in_steps s)" by (simp add: keep_sample_def)
  ultimately show ?thesis using steps b f(1) by simp
qed

theorem train_collects_snapshot_witness:
  "init args_small = Inr (projr (init args_small) :: real bnn) \<and>
   0 \<le> arg_burn_in_steps args_small \<and>
   train toy_env (projr (init args_small)) toy_x toy_x =
     (Inr (), snd (train toy_env (projr (init args_small)) toy_x toy_x)) \<and>
   sampled_weights (snd (train toy_env (projr (init args_small)) toy_x toy_x)) \<noteq> [] \<and>
   hd (snapshot_epochs (projr (init args_small) :: real bnn)) = 1"
proof -
  have b: "0 \<le> arg_burn_in_steps args_small" by (simp add: args_small_def)
  have t: "train toy_env (projr (init args_small)) toy_x toy_x =
     (Inr (), snd (train toy_env (projr (init args_small)) toy_x toy_x))"
    by (simp add: toy_train_small)
  have "burn_in_steps (projr (init args_small) :: real bnn) = 1"
    by (simp add: init_def args_small_def)
  with train_collects_snapshot [OF init_small b t] init_small b t show ?thesis by simp
qed

text \<open>
  The constructor also accepts a negative \<open>burn_in_steps\<close>. With \<open>num_steps = 1\<close>,
  \<open>burn_in_steps = -1\<close> and \<open>keep_every = 3\<close> the run has one iteration, epoch 0, whose
  sample step is 1: \<^verbatim>\<open>train\<close> returns with an empty ensemble.
\<close>

theorem train_collects_snapshot_counterexample:
  "init args_negative_burn_in = Inr (projr (init args_negative_burn_in) :: real bnn) \<and>
   num_iterations (projr (init args_negative_burn_in) :: real bnn) = 1 \<and>
   fst (train toy_env (projr (init args_negative_burn_in)) toy_x toy_x) = Inr () \<and>
   sampled_weights (snd (train toy_env (projr (init args_negative_burn_in)) toy_x toy_x)) = []"
  by (simp add: init_def args_negative_burn_in_def train_def toy_env_def toy_x_def is_matrix_def
        fin_matrix_def sys_maxsize_def keep_sample_def)

section \<open>The value \<^verbatim>\<open>predict\<close> returns\<close>

lemma toy_trained_eq:
  "toy_trained = (projr (init args_small))\<lparr>sampled_weights := [[2, 2], [4, 4]],
          model := Some [4, 4], is_trained := Some True\<rparr>"
  by (simp add: toy_trained_def toy_train_small)

lemma toy_predict:
  "predict toy_env toy_trained toy_x (PyBool b) =
     (Inr (Vector [Fin 3, Fin 3], Vector [Fin 1, Fin 1]), toy_trained)"
  by (simp add: toy_trained_eq predict_def init_def args_small_def toy_env_def toy_x_def
        fin_matrix_def column0_def aggregate_def np_mean_rows_def deviations_def column_def
        fl_sum_def broadcast2_def as_vector_def fl_sub_def)

text \<open>
  Claim C4 fails on the code: \<^verbatim>\<open>return_individual_predictions\<close> is checked to be a
  boolean and never read again, and line 397 returns the pair in both cases. The
  result type of \<open>predict\<close> is that pair; the flag changes neither it nor the object,
  here in general and on the toy model with its two snapshots.
\<close>

theorem predict_ignores_return_individual:
  "predict E s x_test (PyBool True) = predict E s x_test (PyBool False) \<and>
   predict toy_env toy_trained toy_x (PyBool True) =
     (Inr (Vector [Fin 3, Fin 3], Vector [Fin 1, Fin 1]), toy_trained)"
  by (simp add: toy_predict) (simp add: predict_def split: option.splits bool.splits)

section \<open>Prediction with an empty ensemble\<close>

lemma map_rows_ok:
  assumes "\<And>r. r \<in> set X \<Longrightarrow> \<exists>v. f r = Inr v"
  shows "\<exists>vs. map_rows f X = Inr vs \<and> length vs = length X"
  using assms
proof (induction X)
  case Nil
  then show ?case by simp
next
  case (Cons r X)
  from Cons.prems obtain v where v: "f r = Inr v" by auto
  from Cons obtain vs where "map_rows f X = Inr vs" "length vs = length X" by auto
  with v show ?case by simp
qed

lemma broadcast2_same_length:
  "length xs = length ys \<Longrightarrow> broadcast2 f xs ys = Some (map (\<lambda>(x, y). f x y) (zip xs ys))"
  by (simp add: broadcast2_def)

lemma safe_division_same_length:
  "length x = length y \<Longrightarrow> \<exists>r. safe_division x y c = Inr r \<and> length r = length x"
  by (simp add: safe_division_def broadcast2_same_length)

lemma normalization_with_stats_ok:
  assumes "is_matrix X" "length (hd X) = length m" "length sd = length m"
  shows "\<exists>Xn. zero_mean_unit_var_normalization X (Some m) (Some sd) = Inr (Xn, m, sd)"
proof -
  let ?f = "\<lambda>row. case broadcast2 (\<lambda>a b. a - b) row m of
                         None \<Rightarrow> Inl ValueError
                       | Some d \<Rightarrow> safe_division d sd small_constant_default"
  have "\<exists>v. ?f r = Inr v" if "r \<in> set X" for r
  proof -
    from that assms(1,2) have "length r = length m"
      by (simp add: is_matrix_def list_all_iff)
    then show ?thesis
      using safe_division_same_length [of "map (\<lambda>(x, y). x - y) (zip r m)" sd small_constant_default]
        assms(3)
      by (auto simp: broadcast2_same_length)
  qed
  from map_rows_ok [of X ?f, OF this] obtain vs where "map_rows ?f X = Inr vs" by auto
  then show ?thesis by (simp add: zero_mean_unit_var_normalization_def)
qed

lemma normalization_stats:
  "zero_mean_unit_var_normalization X None None = Inr (Xn, m, sd) \<Longrightarrow>
     m = np_mean_axis0 X \<and> sd = np_std_axis0 X"
  by (auto simp: zero_mean_unit_var_normalization_def Let_def split: sum.splits)

lemma train_success_stats:
  assumes "train E s0 x_train y_train = (Inr u, s)"
  shows "is_matrix x_train \<and> is_matrix y_train \<and>
    normalize_input s = normalize_input s0 \<and> normalize_output s = normalize_output s0 \<and>
    (normalize_input s0 \<longrightarrow>
       x_mean s = Some (np_mean_axis0 x_train) \<and> x_std s = Some (np_std_axis0 x_train)) \<and>
    (normalize_output s0 \<longrightarrow>
       y_mean s = Some (np_mean_axis0 y_train) \<and> y_std s = Some (np_std_axis0 y_train))"
  using assms
  by (auto simp: train_def Let_def split: if_splits sum.splits prod.splits
           dest!: train_loop_frame normalization_stats)

lemma length_np_axis0:
  "length (np_mean_axis0 X) = length (hd X)" "length (np_std_axis0 X) = length (hd X)"
  by (simp_all add: np_mean_axis0_def np_std_axis0_def)

lemma unnormalization_nan:
  assumes "length ym = length ys"
  shows "zero_mean_unit_var_unnormalization [NaN] ym ys = Inr (replicate (length ys) NaN)"
proof -
  have 1: "broadcast2 (\<lambda>a s. fl_mul a (Fin s)) [NaN] ys = Some (replicate (length ys) NaN)"
  proof (cases ys)
    case Nil
    then show ?thesis by (simp add: broadcast2_def)
  next
    case (Cons y ys')
    then show ?thesis by (cases ys') (simp_all add: broadcast2_def map_replicate_const)
  qed
  have "map (\<lambda>(x, y). fl_add x (Fin y)) (zip (replicate n NaN) zs) = replicate n NaN"
    if "length zs = n" for n zs
    using that by (induction zs arbitrary: n) auto
  from this [of ym "length ys"] assms
  have 2: "broadcast2 (\<lambda>a m. fl_add a (Fin m)) (replicate (length ys) NaN) ym =
      Some (replicate (length ys) NaN)"
    by (simp add: broadcast2_def)
  show ?thesis by (simp add: zero_mean_unit_var_unnormalization_def 1 2)
qed

lemma aggregate_empty:
  "\<not> normalize_output s \<Longrightarrow> aggregate s [] = Inr (Scalar NaN, Scalar NaN)"
  "normalize_output s \<Longrightarrow> y_mean s = Some ym \<Longrightarrow> y_std s = Some ys \<Longrightarrow> length ym = length ys \<Longrightarrow>
     aggregate s [] = Inr (Vector (replicate (length ys) NaN), Vector (replicate (length ys) NaN))"
  by (simp_all add: aggregate_def np_mean_rows_def deviations_def as_vector_def imul_def
        unnormalization_nan map_replicate_const)

lemma predict_empty:
  assumes "train E s0 x_train y_train = (Inr u, s)" "sampled_weights s = []"
    "is_matrix x_test" "length (hd x_test) = length (hd x_train)"
  shows "\<exists>m v. predict E s x_test (PyBool r) = (Inr (m, v), s) \<and>
    list_all (\<lambda>a. a = NaN) (as_vector m) \<and> list_all (\<lambda>a. a = NaN) (as_vector v)"
proof -
  note st = train_success_stats [OF assms(1)]
  note tr = train_success(1) [OF assms(1)]
  have agg: "\<exists>m v. aggregate s [] = Inr (m, v) \<and>
    list_all (\<lambda>a. a = NaN) (as_vector m) \<and> list_all (\<lambda>a. a = NaN) (as_vector v)"
  proof (cases "normalize_output s")
    case False
    then show ?thesis by (simp add: aggregate_empty(1) as_vector_def)
  next
    case True
    with st have "y_mean s = Some (np_mean_axis0 y_train)" "y_std s = Some (np_std_axis0 y_train)"
      by simp_all
    from aggregate_empty(2) [OF True this] show ?thesis
      by (simp add: length_np_axis0 as_vector_def list_all_iff)
  qed
  show ?thesis
  proof (cases "normalize_input s")
    case False
    with agg tr assms(2) show ?thesis by (auto simp: predict_def)
  next
    case True
    with st have xs: "x_mean s = Some (np_mean_axis0 x_train)" "x_std s = Some (np_std_axis0 x_train)"
      by simp_all
    from normalization_with_stats_ok [OF assms(3), of "np_mean_axis0 x_train" "np_std_axis0 x_train"]
      assms(4)
    obtain Xn where "zero_mean_unit_var_normalization x_test (Some (np_mean_axis0 x_train))
        (Some (np_std_axis0 x_train)) = Inr (Xn, np_mean_axis0 x_train, np_std_axis0 x_train)"
      by (auto simp: length_np_axis0)
    with agg tr assms(2) True xs show ?thesis by (auto simp: predict_def)
  qed
qed

lemma single_snapshot:
  assumes "init a = Inr (s :: 't bnn)" "0 \<le> arg_burn_in_steps a"
    "arg_num_steps a - arg_burn_in_steps a < arg_keep_every a"
    "train E s x_train y_train = (Inr u, s')"
  shows "length (sampled_weights s') = 1"
proof -
  note i = init_Inr [OF assms(1)]
  define R where "R = arg_num_steps a - arg_burn_in_steps a"
  define k where "k = arg_keep_every a"
  have R: "1 \<le> R" "R < k" using i(1) assms(3) by (simp_all add: R_def k_def)
  have "R + k - 1 = (R - 1) + 1 * k" by simp
  then have "(R + k - 1) div k = ((R - 1) + 1 * k) div k" by (simp only:)
  also have "\<dots> = (R - 1) div k + 1" using R by simp
  also have "(R - 1) div k = 0" using R by (simp add: div_pos_pos_trivial)
  finally have "(R + k - 1) div k = 1" by simp
  with snapshot_epochs_count [OF assms(1,2)] i(4)
  have "int (length (snapshot_epochs s)) = 1" by (simp add: R_def k_def)
  with train_success(3) [OF assms(4)] show ?thesis by simp
qed

text \<open>
  Claim C3, as amended. \<^verbatim>\<open>predict\<close> has no check for an empty ensemble. On a model
  whose \<^verbatim>\<open>train\<close> call returned and whose ensemble holds no snapshot, \<^verbatim>\<open>predict\<close>
  raises nothing for a test matrix of the training data's width: it returns a mean and
  a variance that are \<open>nan\<close> (every entry, when output normalization makes them
  arrays), and leaves the object as it is. And a configuration with
  \<open>burn_in_steps \<ge> 0\<close> whose \<open>keep_every\<close> exceeds the post-burn-in steps does not lead
  there: its completed run holds exactly one snapshot.
\<close>

theorem predict_empty_ensemble:
  "(train E s0 x_train y_train = (Inr u, s) \<and> sampled_weights s = [] \<and>
    is_matrix x_test \<and> length (hd x_test) = length (hd x_train) \<longrightarrow>
      (\<exists>m v. predict E s x_test (PyBool r) = (Inr (m, v), s) \<and>
         list_all (\<lambda>a. a = NaN) (as_vector m) \<and> list_all (\<lambda>a. a = NaN) (as_vector v))) \<and>
   (init a = Inr s1 \<and> 0 \<le> arg_burn_in_steps a \<and>
    arg_num_steps a - arg_burn_in_steps a < arg_keep_every a \<and>
    train E s1 x1 y1 = (Inr u1, s1') \<longrightarrow> length (sampled_weights s1') = 1)"
  using predict_empty [of E s0 x_train y_train u s x_test r]
    single_snapshot [of a s1 E x1 y1 u1 s1']
  by blast

lemma init_negative_burn_in:
  "init args_negative_burn_in = Inr (projr (init args_negative_burn_in) :: real bnn)"
  by (simp add: init_def args_negative_burn_in_def)

lemma init_short_run: "init args_short_run = Inr (projr (init args_short_run) :: real bnn)"
  by (simp add: init_def args_short_run_def)

lemma toy_empty_eq:
  "train toy_env (projr (init args_negative_burn_in)) toy_x toy_x = (Inr (), toy_empty)"
  "toy_empty = (projr (init args_negative_burn_in))\<lparr>sampled_weights := [],
      model := Some [1, 1], is_trained := Some True\<rparr>"
  by (simp_all add: toy_empty_def init_def args_negative_burn_in_def train_def toy_env_def
        toy_x_def is_matrix_def fin_matrix_def sys_maxsize_def keep_sample_def eval_nat_numeral)

lemma toy_single_eq:
  "train toy_env (projr (init args_short_run)) toy_x toy_x = (Inr (), toy_single)"
  "toy_single = (projr (init args_short_run))\<lparr>sampled_weights := [[1, 1]],
      model := Some [1, 1], is_trained := Some True\<rparr>"
  by (simp_all add: toy_single_def init_def args_short_run_def train_def toy_env_def
        toy_x_def is_matrix_def fin_matrix_def sys_maxsize_def keep_sample_def eval_nat_numeral)

theorem predict_empty_ensemble_witness:
  "train toy_env (projr (init args_negative_burn_in)) toy_x toy_x = (Inr (), toy_empty) \<and>
   sampled_weights toy_empty = [] \<and> is_matrix toy_x \<and>
   (\<exists>m v. predict toy_env toy_empty toy_x (PyBool False) = (Inr (m, v), toy_empty) \<and>
      list_all (\<lambda>a. a = NaN) (as_vector m) \<and> list_all (\<lambda>a. a = NaN) (as_vector v)) \<and>
   init args_short_run = Inr (projr (init args_short_run) :: real bnn) \<and>
   0 \<le> arg_burn_in_steps args_short_run \<and>
   arg_num_steps args_short_run - arg_burn_in_steps args_short_run
     < arg_keep_every args_short_run \<and>
   train toy_env (projr (init args_short_run)) toy_x toy_x = (Inr (), toy_single) \<and>
   length (sampled_weights toy_single) = 1"
proof -
  have e: "sampled_weights toy_empty = []" by (simp add: toy_empty_eq(2))
  have m: "is_matrix toy_x" "length (hd toy_x) = length (hd toy_x)"
    by (simp_all add: is_matrix_def toy_x_def)
  have a: "0 \<le> arg_burn_in_steps args_short_run"
    "arg_num_steps args_short_run - arg_burn_in_steps args_short_run
       < arg_keep_every args_short_run"
    by (simp_all add: args_short_run_def)
  from predict_empty_ensemble [of toy_env "projr (init args_negative_burn_in)" toy_x toy_x "()"
      toy_empty toy_x False args_short_run "projr (init args_short_run)" toy_x toy_x "()"
      toy_single]
    toy_empty_eq(1) e m a init_short_run toy_single_eq(1)
  show ?thesis by blast
qed

text \<open>
  The claim as stated fails twice. After the completed run of \<open>args_negative_burn_in\<close>
  the ensemble is empty and \<^verbatim>\<open>predict\<close> returns \<open>nan\<close> for the mean and the variance
  instead of raising. After the completed run of \<open>args_short_run\<close>, whose \<open>keep_every =
  2\<close> exceeds its one post-burn-in step, the ensemble holds one snapshot and
  \<^verbatim>\<open>predict\<close> returns that snapshot's output with variance 0.
\<close>

theorem predict_empty_ensemble_counterexample:
  "fst (train toy_env (projr (init args_negative_burn_in)) toy_x toy_x) = Inr () \<and>
   sampled_weights toy_empty = [] \<and>
   predict toy_env toy_empty toy_x (PyBool False) = (Inr (Scalar NaN, Scalar NaN), toy_empty) \<and>
   arg_num_steps args_short_run - arg_burn_in_steps args_short_run
     < arg_keep_every args_short_run \<and>
   fst (train toy_env (projr (init args_short_run)) toy_x toy_x) = Inr () \<and>
   predict toy_env toy_single toy_x (PyBool False) =
     (Inr (Vector [Fin 1, Fin 1], Vector [Fin 0, Fin 0]), toy_single)"
proof -
  have 1: "predict toy_env toy_empty toy_x (PyBool False) =
      (Inr (Scalar NaN, Scalar NaN), toy_empty)"
    by (simp add: toy_empty_eq(2) predict_def init_def args_negative_burn_in_def
          aggregate_def np_mean_rows_def deviations_def)
  have 2: "predict toy_env toy_single toy_x (PyBool False) =
     (Inr (Vector [Fin 1, Fin 1], Vector [Fin 0, Fin 0]), toy_single)"
    by (simp add: toy_single_eq(2) predict_def init_def args_short_run_def toy_env_def toy_x_def
        fin_matrix_def column0_def aggregate_def np_mean_rows_def deviations_def column_def
        fl_sum_def broadcast2_def as_vector_def fl_sub_def)
  have 3: "sampled_weights toy_empty = []" by (simp add: toy_empty_eq(2))
  have 4: "fst (train toy_env (projr (init args_negative_burn_in)) toy_x toy_x) = Inr ()"
    "fst (train toy_env (projr (init args_short_run)) toy_x toy_x) = Inr ()"
    by (simp_all add: toy_empty_eq(1) toy_single_eq(1))
  have 5: "arg_num_steps args_short_run - arg_burn_in_steps args_short_run
     < arg_keep_every args_short_run"
    by (simp add: args_short_run_def)
  from 1 2 3 4 5 show ?thesis by blast
qed

section \<open>Restoring a snapshot into the network\<close>

lemma setter_frame:
  "length (snd (network_weights_setter cp ps weights)) = length ps \<and>
   drop (length weights) (snd (network_weights_setter cp ps weights)) = drop (length weights) ps"
  by (induction cp ps weights rule: network_weights_setter.induct)
     (auto split: sum.splits prod.splits)

lemma setter_error:
  "fst (network_weights_setter cp ps weights) = Some e \<Longrightarrow>
     \<exists>i < min (length ps) (length weights). cp (ps ! i) (weights ! i) = Inl e"
proof (induction cp ps weights rule: network_weights_setter.induct)
  case (1 cp weights)
  then show ?case by simp
next
  case (2 cp parameter ps)
  then show ?case by simp
next
  case (3 cp parameter ps sample weights)
  show ?case
  proof (cases "cp parameter sample")
    case (Inl e')
    with "3.prems" have "cp ((parameter # ps) ! 0) ((sample # weights) ! 0) = Inl e" by simp
    then show ?thesis by (intro exI [of _ 0]) simp
  next
    case (Inr p')
    with "3.prems" have "fst (network_weights_setter cp ps weights) = Some e"
      by (simp split: prod.splits)
    from "3.IH" [OF Inr this] obtain i where
      "i < min (length ps) (length weights)" "cp (ps ! i) (weights ! i) = Inl e" by auto
    then show ?thesis by (intro exI [of _ "Suc i"]) simp
  qed
qed

lemma setter_values:
  "fst (network_weights_setter cp ps weights) = None \<Longrightarrow>
     i < min (length ps) (length weights) \<Longrightarrow>
     cp (ps ! i) (weights ! i) = Inr (snd (network_weights_setter cp ps weights) ! i)"
proof (induction cp ps weights arbitrary: i rule: network_weights_setter.induct)
  case (1 cp weights)
  then show ?case by simp
next
  case (2 cp parameter ps)
  then show ?case by simp
next
  case (3 cp parameter ps sample weights)
  show ?case
  proof (cases "cp parameter sample")
    case (Inl e')
    with "3.prems" show ?thesis by simp
  next
    case (Inr p')
    with "3.prems" have n: "fst (network_weights_setter cp ps weights) = None"
      by (simp split: prod.splits)
    show ?thesis
    proof (cases i)
      case 0
      with Inr show ?thesis by (simp split: prod.splits)
    next
      case (Suc j)
      with "3.prems" have "j < min (length ps) (length weights)" by simp
      from "3.IH" [OF Inr n this] Inr Suc show ?thesis by (simp split: prod.splits)
    qed
  qed
qed

lemma setter_zip:
  "list_all (\<lambda>(p, w). cp p w = Inr w) (zip ps weights) \<Longrightarrow>
     network_weights_setter cp ps weights =
       (None, take (length ps) weights @ drop (length weights) ps)"
  by (induction cp ps weights rule: network_weights_setter.induct) auto

text \<open>
  Claim C10. The setter pairs parameters with snapshot entries by position, as \<^verbatim>\<open>zip\<close>
  does. Whatever \<^verbatim>\<open>copy_\<close> does, the number of parameters stays and the parameters
  past the end of the snapshot are left as they were; an exception is raised only when
  \<^verbatim>\<open>copy_\<close> raises it on some pair, never for a length mismatch; when none is
  raised, every paired parameter holds what \<^verbatim>\<open>copy_\<close> made of it and the snapshot
  entry; and when \<^verbatim>\<open>copy_\<close> writes the entry's values, the result is the snapshot's
  entries followed by the untouched trailing parameters.
\<close>

theorem network_weights_setter_zip:
  "length (snd (network_weights_setter cp ps weights)) = length ps \<and>
   drop (length weights) (snd (network_weights_setter cp ps weights)) = drop (length weights) ps \<and>
   (fst (network_weights_setter cp ps weights) = Some e \<longrightarrow>
      (\<exists>i < min (length ps) (length weights). cp (ps ! i) (weights ! i) = Inl e)) \<and>
   (fst (network_weights_setter cp ps weights) = None \<and> i < min (length ps) (length weights) \<longrightarrow>
      cp (ps ! i) (weights ! i) = Inr (snd (network_weights_setter cp ps weights) ! i)) \<and>
   (list_all (\<lambda>(p, w). cp p w = Inr w) (zip ps weights) \<longrightarrow>
      network_weights_setter cp ps weights =
        (None, take (length ps) weights @ drop (length weights) ps))"
  using setter_frame [of cp ps weights] setter_error [of cp ps weights e]
    setter_values [of cp ps weights i] setter_zip [of cp ps weights]
  by blast

theorem network_weights_setter_zip_witness:
  "list_all (\<lambda>(p, w). toy_copy p w = Inr w) (zip [[1], [2, 3], [4]] [[9], [8, 7]]) \<and>
   network_weights_setter toy_copy [[1], [2, 3], [4]] [[9], [8, 7]] =
     (None, [[9], [8, 7], [4]]) \<and>
   (1::nat) < min (length [[1], [2, 3], [4 :: real]]) (length [[9], [8, 7 :: real]]) \<and>
   toy_copy ([[1], [2, 3], [4]] ! 1) ([[9], [8, 7]] ! 1) = Inr [8, 7] \<and>
   fst (network_weights_setter toy_copy [[1], [2, 3], [4]] [[9], [8]]) = Some RuntimeError \<and>
   snd (network_weights_setter toy_copy [[1], [2, 3], [4]] [[9], [8]]) = [[9], [2, 3], [4]] \<and>
   (\<exists>i < min (length [[1], [2, 3], [4 :: real]]) (length [[9], [8 :: real]]).
      toy_copy ([[1], [2, 3], [4]] ! i) ([[9], [8]] ! i) = Inl RuntimeError)"
proof -
  have a: "list_all (\<lambda>(p, w). toy_copy p w = Inr w) (zip [[1], [2, 3], [4]] [[9], [8, 7]])"
    by (simp add: toy_copy_def)
  have b: "fst (network_weights_setter toy_copy [[1], [2, 3], [4]] [[9], [8]]) = Some RuntimeError"
    "snd (network_weights_setter toy_copy [[1], [2, 3], [4]] [[9], [8]]) = [[9], [2, 3], [4]]"
    by (simp_all add: toy_copy_def)
  have c: "(1::nat) < min (length [[1], [2, 3], [4 :: real]]) (length [[9], [8, 7 :: real]])"
    by simp
  from network_weights_setter_zip [of toy_copy "[[1], [2, 3], [4]]" "[[9], [8, 7]]" RuntimeError 1] a c
  have 1: "network_weights_setter toy_copy [[1], [2, 3], [4]] [[9], [8, 7]] =
     (None, [[9], [8, 7], [4]])"
    "toy_copy ([[1], [2, 3], [4]] ! 1) ([[9], [8, 7]] ! 1) = Inr [8, 7]"
    by simp_all
  from network_weights_setter_zip [of toy_copy "[[1], [2, 3], [4]]" "[[9], [8]]" RuntimeError 0] b
  have 2: "\<exists>i < min (length [[1], [2, 3], [4 :: real]]) (length [[9], [8 :: real]]).
      toy_copy ([[1], [2, 3], [4]] ! i) ([[9], [8]] ! i) = Inl RuntimeError"
    by blast
  from a b c 1 2 show ?thesis by blast
qed

section \<open>Safe division\<close>

lemma safe_division_all_zero:
  "list_all (\<lambda>v. v = 0) y \<Longrightarrow> c \<noteq> 0 \<Longrightarrow>
     safe_division x y c = Inr (map (\<lambda>a. Fin (a / c)) x)"
  by (simp add: safe_division_def true_divide_def)

lemma signed_constant_nonzero:
  fixes v c :: real
  assumes "v \<noteq> 0" "0 < c"
  shows "sgn v * c + v \<noteq> 0" "\<bar>v\<bar> < \<bar>sgn v * c + v\<bar>" "sgn (sgn v * c + v) = sgn v"
  using assms by (cases "0 < v"; simp add: sgn_if)+

lemma safe_division_no_zero:
  assumes "list_all (\<lambda>v. v \<noteq> 0) y" "y \<noteq> []" "length x = length y" "0 < c"
  shows "safe_division x y c = Inr (map (\<lambda>(a, v). Fin (a / (v + sgn v * c))) (zip x y))"
proof -
  have nz: "\<not> list_all (\<lambda>v. v = 0) y"
    using assms(1,2) by (cases y) auto
  have "map (\<lambda>(a, d). true_divide a d) (zip x (map (\<lambda>v. sgn v * c + v) y)) =
        map (\<lambda>(a, v). Fin (a / (v + sgn v * c))) (zip x y)"
    using assms(3,1)
  proof (induction x y rule: list_induct2)
    case Nil
    then show ?case by simp
  next
    case (Cons a x v y)
    then show ?case
      using signed_constant_nonzero(1) [of v c] assms(4)
      by (simp add: true_divide_def add.commute)
  qed
  with nz assms(3) show ?thesis
    by (simp add: safe_division_def broadcast2_def)
qed

text \<open>
  Claim C1 fails on the code where \<open>y\<close> has a zero entry beside a nonzero one:
  \<^verbatim>\<open>np.sign(0)\<close> is 0, so the zero entry gets no constant added, its denominator
  stays 0, and the quotient of a nonzero \<open>x\<close> is infinite. Here \<open>x = [1, 1]\<close>,
  \<open>y = [0, 1]\<close> and the default constant; the claim has \<open>1 / (0 + 1e-16)\<close> in the
  first place.
\<close>

theorem safe_division_mixed_zero:
  "safe_division [1, 1] [0, 1] small_constant_default =
     Inr [PInf, Fin (1 / (1 + small_constant_default))] \<and>
   safe_division [0, - 1] [0, - 2] small_constant_default =
     Inr [NaN, Fin (- 1 / (- 2 - small_constant_default))]"
  by (simp add: safe_division_def broadcast2_def true_divide_def inf_of_sign_def
        small_constant_default_def)

section \<open>The loss\<close>

lemma weight_prior_fold:
  "fold (\<lambda>parameter (ll, n).
           (ll + sum_list (map (\<lambda>w. - wdecay * 0.5 * w ^ 2) parameter), n + length parameter))
        ps (a, k) =
     (a + (\<Sum>p\<leftarrow>ps. \<Sum>w\<leftarrow>p. - wdecay * 0.5 * w ^ 2), k + length (concat ps))"
  by (induction ps arbitrary: a k) (simp_all add: algebra_simps)

lemma weight_prior_spec: "weight_prior ps 1 = spec_weight_prior ps"
  unfolding weight_prior_def spec_weight_prior_def weight_prior_fold by simp

lemma log_variance_prior_spec:
  assumes "lvs \<noteq> []"
  shows "log_variance_prior (map (\<lambda>lv. [lv]) lvs) (1 / 10 ^ 6) (1 / 100) =
           Fin (spec_log_variance_prior lvs)"
proof -
  have "real (length lvs) \<noteq> 0" using assms by simp
  then show ?thesis
    by (simp add: log_variance_prior_def torch_mean_def spec_log_variance_prior_def comp_def)
qed

lemma per_example_broadcast:
  assumes "length input = length target"
  shows "broadcast2 f target (zip (map (\<lambda>row. row ! 0) input)
            (zip (map g (map (\<lambda>row. row ! 1) input)) (map (\<lambda>row. row ! 1) input))) =
         Some (map (\<lambda>i. f (target ! i) (input ! i ! 0, g (input ! i ! 1), input ! i ! 1))
                   [0 ..< length target])"
proof -
  have "map (\<lambda>(x, y). f x y) (zip target (zip (map (\<lambda>row. row ! 0) input)
            (zip (map g (map (\<lambda>row. row ! 1) input)) (map (\<lambda>row. row ! 1) input)))) =
        map (\<lambda>i. f (target ! i) (input ! i ! 0, g (input ! i ! 1), input ! i ! 1))
                   [0 ..< length target]"
    using assms by (intro nth_equalityI) simp_all
  with assms show ?thesis by (simp add: broadcast2_def)
qed

text \<open>
  Claim C5. With the arithmetic taken over the reals: for a predictions matrix with at
  least the two columns and a targets matrix of the same number of rows (at least one),
  and a training set of nonzero size, the loss is the negative of the batch mean of the
  per-example sums of \<open>-0.5 (target - mean)\<^sup>2 / (exp(log_variance) + 1e-16) - 0.5
  log_variance\<close>, plus \<^verbatim>\<open>log_variance_prior\<close> and \<^verbatim>\<open>weight_prior\<close>, each divided
  by the size of the training set, not of the batch. A target that requires a gradient
  is rejected by the assertion of line 24, so none flows into the targets.
\<close>

theorem nll_forward_spec:
  assumes "length input = length target" and "target \<noteq> []"
    and "list_all (\<lambda>row. 2 \<le> length row) input" and "num_datapoints self \<noteq> 0"
  shows "forward self input False target =
           Inr (Fin (spec_loss (parameters self) (num_datapoints self) input target)) \<and>
         forward self input True target = Inl AssertionError"
proof -
  define F where "F = (\<lambda>(trow :: real list) (m, inv, lv).
     sum_list (map (\<lambda>t. - ((t - m) ^ 2) * 0.5 * inv - 0.5 * lv) trow))"
  define G where "G = (\<lambda>lv :: real. 1 / (exp lv + 1 / 10 ^ 16))"
  define pe_list where "pe_list =
    map (\<lambda>i. F (target ! i) (input ! i ! 0, G (input ! i ! 1), input ! i ! 1)) [0 ..< length target]"
  define n where "n = real (length target)"
  define nd where "nd = real_of_int (num_datapoints self)"
  define L where "L = spec_log_variance_prior (map (\<lambda>row. row ! 1) input)"
  define W where "W = spec_weight_prior (parameters self)"
  have ne: "map (\<lambda>row. row ! 1) input \<noteq> []" "n \<noteq> 0" "nd \<noteq> 0"
    using assms(1,2,4) by (auto simp: n_def nd_def)
  have lv: "log_variance_prior (map (\<lambda>lv. [lv]) (map (\<lambda>row. row ! 1) input))
              (1 / 10 ^ 6) (1 / 100) = Fin L"
    unfolding L_def by (rule log_variance_prior_spec [OF ne(1)])
  have pe: "broadcast2 F target (zip (map (\<lambda>row. row ! 0) input)
            (zip (map G (map (\<lambda>row. row ! 1) input)) (map (\<lambda>row. row ! 1) input))) =
         Some pe_list"
    unfolding pe_list_def by (rule per_example_broadcast [OF assms(1)])
  have "forward self input False target =
      Inr (fl_neg (fl_add (fl_add (fl_div (Fin (sum_list pe_list)) (Fin n))
                                  (fl_div (Fin L) (Fin nd)))
                          (fl_div (Fin W) (Fin nd))))"
    unfolding forward_def Let_def F_def [symmetric] G_def [symmetric]
    by (simp only: assms(3) pe lv weight_prior_spec n_def nd_def W_def
          not_True_eq_False if_False option.case)
  also have "\<dots> = Inr (Fin (- (sum_list pe_list / n + L / nd + W / nd)))"
    using ne(2,3) by simp
  also have "sum_list pe_list =
      (\<Sum>i\<leftarrow>[0 ..< length target]. \<Sum>t\<leftarrow>target ! i.
            - 0.5 * (t - input ! i ! 0) ^ 2 * (1 / (exp (input ! i ! 1) + 1 / 10 ^ 16))
            - 0.5 * (input ! i ! 1))"
    unfolding pe_list_def F_def G_def by (simp add: mult.commute)
  finally have 1: "forward self input False target =
           Inr (Fin (spec_loss (parameters self) (num_datapoints self) input target))"
    unfolding spec_loss_def n_def nd_def L_def W_def .
  have 2: "forward self input True target = Inl AssertionError"
    by (simp add: forward_def)
  from 1 2 show ?thesis by simp
qed

theorem nll_forward_spec_witness:
  "length [[1, 0], [2, 0 :: real]] = length [[1], [3 :: real]] \<and> [[1], [3 :: real]] \<noteq> [] \<and>
   list_all (\<lambda>row. 2 \<le> length row) [[1, 0], [2, 0 :: real]] \<and>
   num_datapoints toy_nll \<noteq> 0 \<and>
   forward toy_nll [[1, 0], [2, 0]] False [[1], [3]] =
     Inr (Fin (spec_loss (parameters toy_nll) (num_datapoints toy_nll)
                 [[1, 0], [2, 0]] [[1], [3]])) \<and>
   forward toy_nll [[1, 0], [2, 0]] True [[1], [3]] = Inl AssertionError"
proof -
  have h: "length [[1, 0], [2, 0 :: real]] = length [[1], [3 :: real]]" "[[1], [3 :: real]] \<noteq> []"
    "list_all (\<lambda>row. 2 \<le> length row) [[1, 0], [2, 0 :: real]]" "num_datapoints toy_nll \<noteq> 0"
    by (simp_all add: toy_nll_def)
  from nll_forward_spec [OF h] h show ?thesis by blast
qed

end
